theory Spec2Isabelle
  imports Complex_Main "HOL-Library.AList"
begin

section \<open>Values handled by the runner\<close>

text \<open>
  The runner of \<^verbatim>\<open>playground/common/runner.py\<close> moves Python values between dataclasses,
  \<^verbatim>\<open>ConfigDict\<close> objects, plain dictionaries and JSON files. Python integers are \<open>int\<close>;
  Python floats occur only as stored constants and as rewards that are added up, and are
  modelled by \<open>rat\<close>. A dictionary is an association list in insertion order.
\<close>

datatype scalar = SNone | SBool bool | SInt int | SFloat rat | SStr string

text \<open>The contents of a \<^verbatim>\<open>ConfigDict\<close>: scalars, tuples of scalars and nested
  \<^verbatim>\<open>ConfigDict\<close>s (a dictionary assigned to a field becomes a \<^verbatim>\<open>ConfigDict\<close>).\<close>

datatype cfgval = CScalar scalar | CTuple "scalar list" | CSub "(string \<times> cfgval) list"

text \<open>Python values as \<^verbatim>\<open>asdict\<close>, \<^verbatim>\<open>to_dict\<close> and \<^verbatim>\<open>json\<close> see them. \<open>PConfig\<close> is a
  \<^verbatim>\<open>ConfigDict\<close> object, which is not a \<^verbatim>\<open>dict\<close>.\<close>

datatype pyval =
    PScalar scalar
  | PTuple "pyval list"
  | PList "pyval list"
  | PDict "(string \<times> pyval) list"
  | PConfig "(string \<times> cfgval) list"

datatype json =
    JNull | JBool bool | JInt int | JFloat rat | JStr string
  | JArr "json list"
  | JObj "(string \<times> json) list"

datatype error =
    FileNotFoundError
  | KeyError string
  | IndexError
  | ZeroDivisionError
  | TypeError
  | JSONDecodeError
  | AttributeError
  | TrainerError

text \<open>A method of the runner either returns or raises; in both cases the mutations made
  so far stay in the state.\<close>

datatype 's result = Done 's | Raised error 's

fun the_state :: "'s result \<Rightarrow> 's" where
  "the_state (Done s) = s"
| "the_state (Raised e s) = s"

fun is_done :: "'s result \<Rightarrow> bool" where
  "is_done (Done s) = True"
| "is_done (Raised e s) = False"

subsection \<open>ConfigDict.to_dict and json\<close>

text \<open>Modelled from the spec: \<^verbatim>\<open>ConfigDict.to_dict()\<close> belongs to the external configuration
  library (\<^verbatim>\<open>ml_collections\<close>), which is not under \<^verbatim>\<open>src/\<close>. From the spec: the nested
  network-shape fields are flattened into a plain mapping, with no residual opaque objects;
  so every nested \<^verbatim>\<open>ConfigDict\<close> becomes a plain dictionary and every other field value is
  kept.\<close>

primrec cfgval_to_py :: "cfgval \<Rightarrow> pyval" where
  "cfgval_to_py (CScalar s) = PScalar s"
| "cfgval_to_py (CTuple ss) = PTuple (map PScalar ss)"
| "cfgval_to_py (CSub kvs) = PDict (map (map_prod id cfgval_to_py) kvs)"

definition cfg_to_dict :: "(string \<times> cfgval) list \<Rightarrow> (string \<times> pyval) list" where
  "cfg_to_dict kvs = map (map_prod id cfgval_to_py) kvs"

text \<open>A value is plain when no \<^verbatim>\<open>ConfigDict\<close> object is left anywhere inside it.\<close>

primrec plain :: "pyval \<Rightarrow> bool" where
  "plain (PScalar s) = True"
| "plain (PTuple xs) = list_all id (map plain xs)"
| "plain (PList xs) = list_all id (map plain xs)"
| "plain (PDict kvs) = list_all id (map snd (map (map_prod id plain) kvs))"
| "plain (PConfig kvs) = False"

fun those_items :: "(string \<times> 'a option) list \<Rightarrow> (string \<times> 'a) list option" where
  "those_items [] = Some []"
| "those_items ((k, None) # kvs) = None"
| "those_items ((k, Some v) # kvs) = map_option (Cons (k, v)) (those_items kvs)"

fun json_scalar :: "scalar \<Rightarrow> json" where
  "json_scalar SNone = JNull"
| "json_scalar (SBool b) = JBool b"
| "json_scalar (SInt i) = JInt i"
| "json_scalar (SFloat x) = JFloat x"
| "json_scalar (SStr s) = JStr s"

text \<open>\<^verbatim>\<open>json.dump\<close>: tuples and lists become arrays, dictionaries objects; an object that
  is none of these (here a \<^verbatim>\<open>ConfigDict\<close>) is a TypeError, modelled by \<open>None\<close>.\<close>

primrec json_encode :: "pyval \<Rightarrow> json option" where
  "json_encode (PScalar s) = Some (json_scalar s)"
| "json_encode (PTuple xs) = map_option JArr (those (map json_encode xs))"
| "json_encode (PList xs) = map_option JArr (those (map json_encode xs))"
| "json_encode (PDict kvs) = map_option JObj (those_items (map (map_prod id json_encode) kvs))"
| "json_encode (PConfig kvs) = None"

text \<open>\<^verbatim>\<open>json.load\<close>: arrays come back as lists, objects as dictionaries.\<close>

primrec json_decode :: "json \<Rightarrow> pyval" where
  "json_decode JNull = PScalar SNone"
| "json_decode (JBool b) = PScalar (SBool b)"
| "json_decode (JInt i) = PScalar (SInt i)"
| "json_decode (JFloat x) = PScalar (SFloat x)"
| "json_decode (JStr s) = PScalar (SStr s)"
| "json_decode (JArr xs) = PList (map json_decode xs)"
| "json_decode (JObj kvs) = PDict (map (map_prod id json_decode) kvs)"

fun dict_keys :: "pyval \<Rightarrow> string list" where
  "dict_keys (PDict kvs) = map fst kvs"
| "dict_keys v = []"

section \<open>TrainingConfig\<close>

record training_config =
  num_timesteps :: int
  num_evals :: int
  reward_scaling :: rat
  episode_length :: int
  normalize_observations :: bool
  action_repeat :: int
  unroll_length :: int
  num_minibatches :: int
  num_updates_per_batch :: int
  discounting :: rat
  learning_rate :: rat
  entropy_cost :: rat
  num_envs :: int
  batch_size :: int
  max_grad_norm :: rat
  clipping_epsilon :: rat
  num_resets_per_eval :: int
  network_factory :: pyval

text \<open>The declared fields of the dataclass, in declaration order.\<close>

definition declared_fields :: "string list" where
  "declared_fields =
    [''num_timesteps'', ''num_evals'', ''reward_scaling'', ''episode_length'',
     ''normalize_observations'', ''action_repeat'', ''unroll_length'', ''num_minibatches'',
     ''num_updates_per_batch'', ''discounting'', ''learning_rate'', ''entropy_cost'',
     ''num_envs'', ''batch_size'', ''max_grad_norm'', ''clipping_epsilon'',
     ''num_resets_per_eval'', ''network_factory'']"

text \<open>\<^verbatim>\<open>dataclasses.asdict\<close>: one entry per field; a value that is no dataclass, list,
  tuple or dict is deep-copied, so the \<^verbatim>\<open>ConfigDict\<close> stays a \<^verbatim>\<open>ConfigDict\<close>.\<close>

definition asdict :: "training_config \<Rightarrow> (string \<times> pyval) list" where
  "asdict c =
    [(''num_timesteps'', PScalar (SInt (num_timesteps c))),
     (''num_evals'', PScalar (SInt (num_evals c))),
     (''reward_scaling'', PScalar (SFloat (reward_scaling c))),
     (''episode_length'', PScalar (SInt (episode_length c))),
     (''normalize_observations'', PScalar (SBool (normalize_observations c))),
     (''action_repeat'', PScalar (SInt (action_repeat c))),
     (''unroll_length'', PScalar (SInt (unroll_length c))),
     (''num_minibatches'', PScalar (SInt (num_minibatches c))),
     (''num_updates_per_batch'', PScalar (SInt (num_updates_per_batch c))),
     (''discounting'', PScalar (SFloat (discounting c))),
     (''learning_rate'', PScalar (SFloat (learning_rate c))),
     (''entropy_cost'', PScalar (SFloat (entropy_cost c))),
     (''num_envs'', PScalar (SInt (num_envs c))),
     (''batch_size'', PScalar (SInt (batch_size c))),
     (''max_grad_norm'', PScalar (SFloat (max_grad_norm c))),
     (''clipping_epsilon'', PScalar (SFloat (clipping_epsilon c))),
     (''num_resets_per_eval'', PScalar (SInt (num_resets_per_eval c))),
     (''network_factory'', network_factory c)]"

fun is_ConfigDict :: "pyval \<Rightarrow> bool" where
  "is_ConfigDict (PConfig kvs) = True"
| "is_ConfigDict v = False"

fun ConfigDict_to_dict :: "pyval \<Rightarrow> pyval" where
  "ConfigDict_to_dict (PConfig kvs) = PDict (cfg_to_dict kvs)"
| "ConfigDict_to_dict v = v"

definition to_dict :: "training_config \<Rightarrow> (string \<times> pyval) list" where
  "to_dict c =
    (let result = asdict c in
     if is_ConfigDict (network_factory c)
     then AList.update ''network_factory'' (ConfigDict_to_dict (network_factory c)) result
     else result)"

section \<open>Configuration Builder\<close>

text \<open>\<^verbatim>\<open>config_dict.create(...)\<close> of \<^verbatim>\<open>_create_training_config\<close>.\<close>

definition default_network_factory :: pyval where
  "default_network_factory = PConfig
    [(''policy_hidden_layer_sizes'', CTuple [SInt 512, SInt 256, SInt 128]),
     (''value_hidden_layer_sizes'', CTuple [SInt 512, SInt 256, SInt 128]),
     (''policy_obs_key'', CScalar (SStr ''state'')),
     (''value_obs_key'', CScalar (SStr ''privileged_state''))]"

text \<open>\<^verbatim>\<open>_create_training_config\<close> reads \<^verbatim>\<open>self.args.debug\<close> and
  \<^verbatim>\<open>self.env_config.episode_length\<close>; they are its two arguments here.\<close>

definition create_training_config :: "bool \<Rightarrow> int \<Rightarrow> training_config" where
  "create_training_config is_debug env_episode_length =
    \<lparr> num_timesteps = (if is_debug then 5 else 500000000),
      num_evals = 15,
      reward_scaling = 1,
      episode_length = (if is_debug then 1 else env_episode_length),
      normalize_observations = True,
      action_repeat = 1,
      unroll_length = 20,
      num_minibatches = (if is_debug then 1 else 32),
      num_updates_per_batch = (if is_debug then 1 else 4),
      discounting = 97 / 100,
      learning_rate = 3 / 10000,
      entropy_cost = 1 / 100,
      num_envs = (if is_debug then 1 else 32),
      batch_size = (if is_debug then 2 else 256),
      max_grad_norm = 1,
      clipping_epsilon = 2 / 10,
      num_resets_per_eval = 1,
      network_factory = default_network_factory \<rparr>"

section \<open>The runner and what it writes\<close>

text \<open>A plot written by \<^verbatim>\<open>progress_callback\<close>: the right end of the x axis, the value
  shown in the title, and the three series passed to \<^verbatim>\<open>errorbar\<close>. A video written by
  \<^verbatim>\<open>save_video\<close>: its frame rate and its frames. A JSON file holds the text of a JSON value;
  \<open>Broken_text\<close> is a file whose text is no JSON document.\<close>

datatype 'f content =
    Json_text json
  | Broken_text
  | Plot_png rat rat "int list" "rat list" "rat list"
  | Video_mp4 rat "'f list"

datatype log_event =
    Log_rl_config "(string \<times> pyval) list"
  | Log_time_to_jit int
  | Log_time_to_train int
  | Log_fps rat
  | Log_episode_reward nat rat
  | Log_model_saved int string
  | Log_loaded_configuration string
  | Log_model_loaded int

text \<open>\<^verbatim>\<open>TrainingState\<close>. The field \<^verbatim>\<open>times\<close> is called \<open>times_seq\<close> here; timestamps are
  integers (microseconds). \<^verbatim>\<open>rl_config\<close> is the \<^verbatim>\<open>ConfigDict\<close> created from the dictionary
  of hyperparameters, kept as its list of items.\<close>

record 'p training_state =
  x_data :: "int list"
  y_data :: "rat list"
  y_dataerr :: "rat list"
  times_seq :: "int list"
  rl_config :: "(string \<times> pyval) list"
  params :: "'p option"

text \<open>A directory \<^verbatim>\<open>checkpoints/<env_name>\<close>: the checkpoints of the checkpoint manager,
  by step, and the other files in it, by name.\<close>

record ('p, 'f) directory =
  ckpt_steps :: "(int \<times> 'p option) list"
  dir_files :: "string \<rightharpoonup> 'f content"

text \<open>The runner object together with what it acts on: the fields of \<^verbatim>\<open>self\<close> that the
  methods read, the messages given to the logger (oldest first), the files of the working
  directory, and the subdirectories of \<^verbatim>\<open>checkpoints/\<close> by name.\<close>

record ('p, 'f) runner =
  env_name :: string
  args_debug :: bool
  args_save_model :: bool
  env_config_episode_length :: int
  training_config :: training_config
  training_state :: "'p training_state"
  logger :: "log_event list"
  cwd_files :: "string \<rightharpoonup> 'f content"
  checkpoints :: "string \<rightharpoonup> ('p, 'f) directory"

definition logger_info :: "log_event \<Rightarrow> ('p, 'f) runner \<Rightarrow> ('p, 'f) runner" where
  "logger_info ev r = r\<lparr>logger := logger r @ [ev]\<rparr>"

text \<open>\<^verbatim>\<open>_get_rl_config_dict\<close>: logs the dictionary and returns it.\<close>

definition get_rl_config_dict ::
  "('p, 'f) runner \<Rightarrow> (string \<times> pyval) list \<times> ('p, 'f) runner" where
  "get_rl_config_dict r =
    (let config_dict = to_dict (training_config r) in
     (config_dict, logger_info (Log_rl_config config_dict) r))"

text \<open>\<^verbatim>\<open>BaseRunner.__init__\<close>. The environment provider has given the environment name
  and the episode length of the environment's configuration; \<open>now\<close> is the value of
  \<^verbatim>\<open>datetime.now()\<close>; the last three arguments are the log, the working directory and the
  checkpoints directory as they are when the runner is built.\<close>

definition init_runner ::
  "string \<Rightarrow> bool \<Rightarrow> bool \<Rightarrow> int \<Rightarrow> int \<Rightarrow> log_event list \<Rightarrow> (string \<rightharpoonup> 'f content) \<Rightarrow>
   (string \<rightharpoonup> ('p, 'f) directory) \<Rightarrow> ('p, 'f) runner" where
  "init_runner name is_debug save_flag env_episode_length now lg cwd ckpts =
    (let tc = create_training_config is_debug env_episode_length;
         r0 = \<lparr> env_name = name, args_debug = is_debug, args_save_model = save_flag,
                env_config_episode_length = env_episode_length, training_config = tc,
                training_state = \<lparr> x_data = [], y_data = [], y_dataerr = [], times_seq = [],
                                   rl_config = [], params = None \<rparr>,
                logger = lg, cwd_files = cwd, checkpoints = ckpts \<rparr>;
         (config_dict, r1) = get_rl_config_dict r0
     in r1\<lparr>training_state :=
          \<lparr> x_data = [], y_data = [], y_dataerr = [], times_seq = [now],
            rl_config = config_dict, params = None \<rparr>\<rparr>)"

subsection \<open>Progress Reporter\<close>

text \<open>\<^verbatim>\<open>rl_config["num_timesteps"] * 1.25\<close>: a number times a float.\<close>

fun times_float :: "pyval \<Rightarrow> rat \<Rightarrow> rat option" where
  "times_float (PScalar (SInt i)) x = Some (of_int i * x)"
| "times_float (PScalar (SFloat y)) x = Some (y * x)"
| "times_float (PScalar (SBool b)) x = Some ((if b then 1 else 0) * x)"
| "times_float v x = None"

text \<open>\<^verbatim>\<open>progress_callback\<close>, statement by statement. \<open>now\<close> is the value of
  \<^verbatim>\<open>datetime.now()\<close> at the call. The plot is the file \<^verbatim>\<open>plot.png\<close>.\<close>

definition progress_callback ::
  "int \<Rightarrow> int \<Rightarrow> (string \<rightharpoonup> rat) \<Rightarrow> ('p, 'f) runner \<Rightarrow> ('p, 'f) runner result" where
  "progress_callback now num_steps metrics r =
    (let r1 = r\<lparr>training_state := (training_state r)
                  \<lparr>times_seq := times_seq (training_state r) @ [now]\<rparr>\<rparr>;
         r2 = r1\<lparr>training_state := (training_state r1)
                  \<lparr>x_data := x_data (training_state r1) @ [num_steps]\<rparr>\<rparr>
     in case metrics ''eval/episode_reward'' of
          None \<Rightarrow> Raised (KeyError ''eval/episode_reward'') r2
        | Some y \<Rightarrow>
     (let r3 = r2\<lparr>training_state := (training_state r2)
                  \<lparr>y_data := y_data (training_state r2) @ [y]\<rparr>\<rparr>
      in case metrics ''eval/episode_reward_std'' of
           None \<Rightarrow> Raised (KeyError ''eval/episode_reward_std'') r3
         | Some yerr \<Rightarrow>
      (let r4 = r3\<lparr>training_state := (training_state r3)
                   \<lparr>y_dataerr := y_dataerr (training_state r3) @ [yerr]\<rparr>\<rparr>;
           ts = training_state r4
       in case map_of (rl_config ts) ''num_timesteps'' of
            None \<Rightarrow> Raised (KeyError ''num_timesteps'') r4
          | Some n \<Rightarrow>
           (case times_float n (125 / 100) of
              None \<Rightarrow> Raised TypeError r4
            | Some xlim \<Rightarrow>
                Done (r4\<lparr>cwd_files := (cwd_files r4)(''plot.png'' \<mapsto>
                  Plot_png xlim (last (y_data ts)) (x_data ts) (y_data ts) (y_dataerr ts))\<rparr>)))))"

subsection \<open>Checkpoint Store\<close>

text \<open>\<^verbatim>\<open>str\<close> of an integer, as the f-strings of the file names use it.\<close>

fun str_nat :: "nat \<Rightarrow> string" where
  "str_nat n =
    (if n < 10 then [''0123456789'' ! n]
     else str_nat (n div 10) @ [''0123456789'' ! (n mod 10)])"

declare str_nat.simps [simp del]

definition str_int :: "int \<Rightarrow> string" where
  "str_int i = (if i < 0 then ''-'' @ str_nat (nat (- i)) else str_nat (nat i))"

definition config_step_json :: "int \<Rightarrow> string" where
  "config_step_json step = ''config_'' @ str_int step @ ''.json''"

text \<open>Modelled from the spec: the checkpoint manager is the external checkpoint library
  (\<^verbatim>\<open>orbax.checkpoint.CheckpointManager\<close>), which is not under \<^verbatim>\<open>src/\<close>. From the spec:
  a checkpoint's identity is its integer step; at most \<open>max_to_keep\<close> most-recent checkpoints
  are kept, older ones are evicted by a retention sweep, a directory scan sorted by step
  number; the latest step is the highest saved step; restoring a step that is not there
  fails with the not-found condition.\<close>

definition mgr_retain :: "nat \<Rightarrow> (int \<times> 'a) list \<Rightarrow> (int \<times> 'a) list" where
  "mgr_retain max_to_keep store =
    (let keep = take max_to_keep (rev (sort (remdups (map fst store))))
     in filter (\<lambda>kv. fst kv \<in> set keep) store)"

text \<open>Modelled from the spec: \<^verbatim>\<open>CheckpointManager.save\<close> of the external checkpoint library:
  write the parameters under the step, then apply the retention policy.\<close>

definition mgr_save :: "nat \<Rightarrow> int \<Rightarrow> 'a \<Rightarrow> (int \<times> 'a) list \<Rightarrow> (int \<times> 'a) list" where
  "mgr_save max_to_keep step p store = mgr_retain max_to_keep (AList.update step p store)"

text \<open>Modelled from the spec: \<^verbatim>\<open>CheckpointManager.latest_step\<close> of the external checkpoint
  library: the highest saved step, \<^verbatim>\<open>None\<close> when there is no checkpoint.\<close>

fun mgr_latest_step :: "(int \<times> 'a) list \<Rightarrow> int option" where
  "mgr_latest_step [] = None"
| "mgr_latest_step (kv # store) = Some (fold max (map fst store) (fst kv))"

text \<open>Modelled from the spec: \<^verbatim>\<open>CheckpointManager.restore\<close> of the external checkpoint
  library: the parameters saved under the step, or the not-found condition.\<close>

definition mgr_restore :: "(int \<times> 'a) list \<Rightarrow> int \<Rightarrow> error + 'a" where
  "mgr_restore store step =
    (case map_of store step of None \<Rightarrow> Inl FileNotFoundError | Some p \<Rightarrow> Inr p)"

text \<open>\<^verbatim>\<open>mkdir(parents=True, exist_ok=True)\<close> of \<^verbatim>\<open>checkpoints/<env_name>\<close>.\<close>

definition mkdir_ckpt_dir :: "('p, 'f) runner \<Rightarrow> ('p, 'f) runner" where
  "mkdir_ckpt_dir r =
    (case checkpoints r (env_name r) of
       Some d \<Rightarrow> r
     | None \<Rightarrow> r\<lparr>checkpoints := (checkpoints r)(env_name r \<mapsto>
                  \<lparr>ckpt_steps = [], dir_files = Map.empty\<rparr>)\<rparr>)"

definition ckpt_dir :: "('p, 'f) runner \<Rightarrow> ('p, 'f) directory" where
  "ckpt_dir r =
    (case checkpoints r (env_name r) of
       Some d \<Rightarrow> d
     | None \<Rightarrow> \<lparr>ckpt_steps = [], dir_files = Map.empty\<rparr>)"

definition set_ckpt_dir :: "('p, 'f) directory \<Rightarrow> ('p, 'f) runner \<Rightarrow> ('p, 'f) runner" where
  "set_ckpt_dir d r = r\<lparr>checkpoints := (checkpoints r)(env_name r \<mapsto> d)\<rparr>"

text \<open>\<^verbatim>\<open>with open(ckpt_dir / name, "w") as fp: json.dump(self.training_config.to_dict(), fp)\<close>:
  opening truncates the file; when the dictionary cannot be serialised the file is left
  without a JSON document in it.\<close>

definition dump_config :: "string \<Rightarrow> ('p, 'f) runner \<Rightarrow> ('p, 'f) runner result" where
  "dump_config name r =
    (let d = ckpt_dir r in
     case json_encode (PDict (to_dict (training_config r))) of
       None \<Rightarrow> Raised TypeError (set_ckpt_dir (d\<lparr>dir_files := (dir_files d)(name \<mapsto> Broken_text)\<rparr>) r)
     | Some j \<Rightarrow> Done (set_ckpt_dir (d\<lparr>dir_files := (dir_files d)(name \<mapsto> Json_text j)\<rparr>) r))"

text \<open>\<^verbatim>\<open>_save_rl_config_dict\<close>; its argument \<^verbatim>\<open>path\<close> is not used by the source.\<close>

definition save_rl_config_dict :: "string \<Rightarrow> ('p, 'f) runner \<Rightarrow> ('p, 'f) runner result" where
  "save_rl_config_dict path r = dump_config ''config.json'' (mkdir_ckpt_dir r)"

definition save_model :: "('p, 'f) runner \<Rightarrow> ('p, 'f) runner result" where
  "save_model r =
    (let r1 = mkdir_ckpt_dir r;
         ts = training_state r1;
         step = (if x_data ts \<noteq> [] then last (x_data ts) else 0);
         d = ckpt_dir r1;
         r2 = set_ckpt_dir (d\<lparr>ckpt_steps := mgr_save 5 step (params ts) (ckpt_steps d)\<rparr>) r1;
         (config_dict, r3) = get_rl_config_dict r2
     in case dump_config (config_step_json step) r3 of
          Raised e r4 \<Rightarrow> Raised e r4
        | Done r4 \<Rightarrow> Done (logger_info (Log_model_saved step (env_name r4)) r4))"

text \<open>\<^verbatim>\<open>json.load\<close> of a file.\<close>

fun json_load :: "'f content \<Rightarrow> pyval option" where
  "json_load (Json_text j) = Some (json_decode j)"
| "json_load c = None"

text \<open>The part of \<^verbatim>\<open>load_model\<close> after the step is determined.\<close>

definition load_step ::
  "int \<Rightarrow> ('p, 'f) directory \<Rightarrow> ('p, 'f) runner \<Rightarrow> ('p, 'f) runner result" where
  "load_step step d r =
    (case mgr_restore (ckpt_steps d) step of
       Inl e \<Rightarrow> Raised e r
     | Inr p \<Rightarrow>
        (let r1 = r\<lparr>training_state := (training_state r)\<lparr>params := p\<rparr>\<rparr> in
         case dir_files d (config_step_json step) of
           None \<Rightarrow> Done (logger_info (Log_model_loaded step) r1)
         | Some c \<Rightarrow>
            (case json_load c of
               None \<Rightarrow> Raised JSONDecodeError r1
             | Some loaded_config \<Rightarrow>
                 Done (logger_info (Log_model_loaded step)
                        (logger_info (Log_loaded_configuration (config_step_json step)) r1)))))"

definition load_model :: "int option \<Rightarrow> ('p, 'f) runner \<Rightarrow> ('p, 'f) runner result" where
  "load_model step r =
    (case checkpoints r (env_name r) of
       None \<Rightarrow> Raised FileNotFoundError r
     | Some d \<Rightarrow>
        (case step of
           None \<Rightarrow>
            (case mgr_latest_step (ckpt_steps d) of
               None \<Rightarrow> Raised FileNotFoundError r
             | Some s \<Rightarrow> load_step s d r)
         | Some s \<Rightarrow> load_step s d r))"

subsection \<open>Training Orchestrator\<close>

text \<open>The external trainer is given by what it does to the runner: the progress ticks it
  fires, each with the time of the call, the step count and the metrics, and then the
  parameters it returns or the error it raises.\<close>

fun run_callbacks ::
  "(int \<times> int \<times> (string \<rightharpoonup> rat)) list \<Rightarrow> ('p, 'f) runner \<Rightarrow> ('p, 'f) runner result" where
  "run_callbacks [] r = Done r"
| "run_callbacks ((now, num_steps, metrics) # ticks) r =
    (case progress_callback now num_steps metrics r of
       Raised e r' \<Rightarrow> Raised e r'
     | Done r' \<Rightarrow> run_callbacks ticks r')"

definition train ::
  "(int \<times> int \<times> (string \<rightharpoonup> rat)) list \<Rightarrow> error + 'p \<Rightarrow> ('p, 'f) runner \<Rightarrow>
   ('p, 'f) runner result" where
  "train ticks outcome r =
    (case run_callbacks ticks r of
       Raised e r1 \<Rightarrow> Raised e r1
     | Done r1 \<Rightarrow>
        (case outcome of
           Inl e \<Rightarrow> Raised e r1
         | Inr trained \<Rightarrow>
            (let ts = times_seq (training_state r1) in
             if length ts \<le> 1 then Raised IndexError r1
             else
               (let r2 = logger_info (Log_time_to_jit (ts ! 1 - ts ! 0)) r1;
                    r3 = logger_info (Log_time_to_train (last ts - ts ! 1)) r2
                in if args_save_model r3
                   then save_model (r3\<lparr>training_state := (training_state r3)
                                        \<lparr>params := Some trained\<rparr>\<rparr>)
                   else Done r3))))"

subsection \<open>Evaluator/Renderer\<close>

text \<open>What \<^verbatim>\<open>evaluate\<close> needs from an environment: \<^verbatim>\<open>reset\<close>, \<^verbatim>\<open>step\<close>, \<^verbatim>\<open>render\<close> (camera,
  scene options and size are constants of the source; the scene modifications are the
  no-op functions collected with the rollout), \<^verbatim>\<open>dt\<close>, and the fields \<^verbatim>\<open>obs\<close> and
  \<^verbatim>\<open>reward\<close> of a state.\<close>

record ('s, 'o, 'c, 'k, 'f) mjx_env =
  env_reset :: "'k \<Rightarrow> 's"
  env_step :: "'s \<Rightarrow> 'c \<Rightarrow> 's"
  env_render :: "'s list \<Rightarrow> unit list \<Rightarrow> 'f list"
  env_dt :: rat
  state_obs :: "'s \<Rightarrow> 'o"
  state_reward :: "'s \<Rightarrow> rat"

text \<open>What \<^verbatim>\<open>evaluate\<close> needs from the array and network libraries: \<^verbatim>\<open>jax.random.PRNGKey\<close>,
  \<^verbatim>\<open>jax.random.split\<close>, and the inference function made from the parameters.\<close>

record ('p, 'o, 'c, 'k) policy_lib =
  random_PRNGKey :: "nat \<Rightarrow> 'k"
  random_split :: "'k \<Rightarrow> 'k \<times> 'k"
  make_inference_fn :: "'p option \<Rightarrow> 'o \<Rightarrow> 'k \<Rightarrow> 'c"

definition save_video ::
  "'f list \<Rightarrow> rat \<Rightarrow> string \<Rightarrow> ('p, 'f) runner \<Rightarrow> ('p, 'f) runner result" where
  "save_video frames fps filename r =
    (case frames of
       [] \<Rightarrow> Raised IndexError r
     | frame # rest \<Rightarrow> Done (r\<lparr>cwd_files := (cwd_files r)(filename \<mapsto> Video_mp4 fps frames)\<rparr>))"

definition render_episode ::
  "('s, 'o, 'c, 'k, 'f) mjx_env \<Rightarrow> 's list \<Rightarrow> unit list \<Rightarrow> nat \<Rightarrow> ('p, 'f) runner \<Rightarrow>
   ('p, 'f) runner result" where
  "render_episode eval_env rollout modify_scene_fns episode_num r =
    (if env_dt eval_env = 0 then Raised ZeroDivisionError r
     else
       (let fps = 1 / env_dt eval_env / 1;
            r1 = logger_info (Log_fps fps) r;
            traj = rollout;
            mod_fns = modify_scene_fns;
            frames = env_render eval_env traj mod_fns
        in save_video frames fps (''output_'' @ str_nat episode_num @ ''.mp4'') r1))"

text \<open>The inner loop of \<^verbatim>\<open>evaluate\<close>: \<open>n\<close> iterations are left.\<close>

fun run_episode ::
  "('s, 'o, 'c, 'k, 'f) mjx_env \<Rightarrow> ('k \<Rightarrow> 'k \<times> 'k) \<Rightarrow> ('o \<Rightarrow> 'k \<Rightarrow> 'c) \<Rightarrow> nat \<Rightarrow>
   's \<Rightarrow> 'k \<Rightarrow> 's list \<Rightarrow> unit list \<Rightarrow> 's list \<times> unit list" where
  "run_episode env split inference_fn 0 state rng rollout modify_scene_fns =
    (rollout, modify_scene_fns)"
| "run_episode env split inference_fn (Suc n) state rng rollout modify_scene_fns =
    (let (act_rng, rng') = split rng;
         ctrl = inference_fn (state_obs env state) act_rng;
         state' = env_step env state ctrl
     in run_episode env split inference_fn n state' rng' (rollout @ [state'])
          (modify_scene_fns @ [()]))"

definition evaluate_episode ::
  "('s, 'o, 'c, 'k, 'f) mjx_env \<Rightarrow> ('s, 'o, 'c, 'k, 'f) mjx_env \<Rightarrow> ('p, 'o, 'c, 'k) policy_lib \<Rightarrow>
   nat \<Rightarrow> ('p, 'f) runner \<Rightarrow> ('p, 'f) runner result" where
  "evaluate_episode eval_env video_eval_env lib episode r =
    (let inference_fn = make_inference_fn lib (params (training_state r));
         rng = random_PRNGKey lib episode;
         state = env_reset video_eval_env rng;
         (rollout, modify_scene_fns) =
           run_episode video_eval_env (random_split lib) inference_fn
             (nat (env_config_episode_length r)) state rng [state] [()];
         episode_reward = sum_list (map (state_reward video_eval_env) rollout);
         r1 = logger_info (Log_episode_reward episode episode_reward) r
     in render_episode eval_env rollout modify_scene_fns episode r1)"

fun evaluate_episodes ::
  "('s, 'o, 'c, 'k, 'f) mjx_env \<Rightarrow> ('s, 'o, 'c, 'k, 'f) mjx_env \<Rightarrow> ('p, 'o, 'c, 'k) policy_lib \<Rightarrow>
   nat list \<Rightarrow> ('p, 'f) runner \<Rightarrow> ('p, 'f) runner result" where
  "evaluate_episodes eval_env video_eval_env lib [] r = Done r"
| "evaluate_episodes eval_env video_eval_env lib (episode # episodes) r =
    (case evaluate_episode eval_env video_eval_env lib episode r of
       Raised e r' \<Rightarrow> Raised e r'
     | Done r' \<Rightarrow> evaluate_episodes eval_env video_eval_env lib episodes r')"

text \<open>\<^verbatim>\<open>evaluate\<close>: the networks are made from \<^verbatim>\<open>rl_config.network_factory\<close>, an attribute
  error when the configuration has no such field; then the episodes run in order.\<close>

definition evaluate ::
  "('s, 'o, 'c, 'k, 'f) mjx_env \<Rightarrow> ('s, 'o, 'c, 'k, 'f) mjx_env \<Rightarrow> ('p, 'o, 'c, 'k) policy_lib \<Rightarrow>
   ('p, 'f) runner \<Rightarrow> ('p, 'f) runner result" where
  "evaluate eval_env video_eval_env lib r =
    (case map_of (rl_config (training_state r)) ''network_factory'' of
       None \<Rightarrow> Raised AttributeError r
     | Some network_factory_kwargs \<Rightarrow>
         evaluate_episodes eval_env video_eval_env lib
           [0 ..< nat (num_resets_per_eval (training_config r))] r)"

section \<open>Notions used to state the properties\<close>

text \<open>The step \<^verbatim>\<open>load_model\<close> works with: the explicit one, or the manager's latest.\<close>

definition requested_step :: "int option \<Rightarrow> ('p, 'f) directory \<Rightarrow> int option" where
  "requested_step step d =
    (case step of None \<Rightarrow> mgr_latest_step (ckpt_steps d) | Some s \<Rightarrow> Some s)"

text \<open>The requested checkpoint is available: the directory exists, and it holds a
  checkpoint (for the latest step), respectively the checkpoint of the explicit step.\<close>

definition checkpoint_available :: "int option \<Rightarrow> ('p, 'f) runner \<Rightarrow> bool" where
  "checkpoint_available step r =
    (case checkpoints r (env_name r) of
       None \<Rightarrow> False
     | Some d \<Rightarrow>
        (case step of
           None \<Rightarrow> ckpt_steps d \<noteq> []
         | Some s \<Rightarrow> s \<in> set (map fst (ckpt_steps d))))"

text \<open>The snapshot \<^verbatim>\<open>config_<step>.json\<close> of a step is absent or holds a JSON document; and
  this is so for every checkpoint of the directory.\<close>

definition snapshot_readable :: "int \<Rightarrow> ('p, 'f) directory \<Rightarrow> bool" where
  "snapshot_readable s d =
    (case dir_files d (config_step_json s) of None \<Rightarrow> True | Some c \<Rightarrow> json_load c \<noteq> None)"

definition snapshots_readable :: "('p, 'f) directory \<Rightarrow> bool" where
  "snapshots_readable d = list_all (\<lambda>s. snapshot_readable s d) (map fst (ckpt_steps d))"

text \<open>The step \<^verbatim>\<open>save_model\<close> saves under: the last recorded step, or 0.\<close>

definition last_recorded_step :: "('p, 'f) runner \<Rightarrow> int" where
  "last_recorded_step r =
    (if x_data (training_state r) = [] then 0 else last (x_data (training_state r)))"

text \<open>The episode totals reported to the logger, oldest first.\<close>

fun episode_rewards :: "log_event list \<Rightarrow> (nat \<times> rat) list" where
  "episode_rewards [] = []"
| "episode_rewards (Log_episode_reward episode reward_sum # evs) =
    (episode, reward_sum) # episode_rewards evs"
| "episode_rewards (ev # evs) = episode_rewards evs"

text \<open>The JSON object that \<^verbatim>\<open>json.dump\<close> writes for the hyperparameters: every declared
  field with its value, in declaration order; the second argument is the JSON form of the
  network-shape sub-configuration.\<close>

definition hyperparameters_json :: "training_config \<Rightarrow> json \<Rightarrow> json" where
  "hyperparameters_json c nf = JObj
    [(''num_timesteps'', JInt (num_timesteps c)),
     (''num_evals'', JInt (num_evals c)),
     (''reward_scaling'', JFloat (reward_scaling c)),
     (''episode_length'', JInt (episode_length c)),
     (''normalize_observations'', JBool (normalize_observations c)),
     (''action_repeat'', JInt (action_repeat c)),
     (''unroll_length'', JInt (unroll_length c)),
     (''num_minibatches'', JInt (num_minibatches c)),
     (''num_updates_per_batch'', JInt (num_updates_per_batch c)),
     (''discounting'', JFloat (discounting c)),
     (''learning_rate'', JFloat (learning_rate c)),
     (''entropy_cost'', JFloat (entropy_cost c)),
     (''num_envs'', JInt (num_envs c)),
     (''batch_size'', JInt (batch_size c)),
     (''max_grad_norm'', JFloat (max_grad_norm c)),
     (''clipping_epsilon'', JFloat (clipping_epsilon c)),
     (''num_resets_per_eval'', JInt (num_resets_per_eval c)),
     (''network_factory'', nf)]"

text \<open>The rollout of an episode and its scene modifications, as \<^verbatim>\<open>evaluate\<close> collects them:
  the state returned by reset, followed by the state after each step.\<close>

definition episode_rollout ::
  "('s, 'o, 'c, 'k, 'f) mjx_env \<Rightarrow> ('p, 'o, 'c, 'k) policy_lib \<Rightarrow> nat \<Rightarrow> ('p, 'f) runner \<Rightarrow>
   's list \<times> unit list" where
  "episode_rollout video_eval_env lib episode r =
    run_episode video_eval_env (random_split lib)
      (make_inference_fn lib (params (training_state r)))
      (nat (env_config_episode_length r))
      (env_reset video_eval_env (random_PRNGKey lib episode)) (random_PRNGKey lib episode)
      [env_reset video_eval_env (random_PRNGKey lib episode)] [()]"

section \<open>Concrete runs\<close>

text \<open>A runner in debug mode with the save flag set, built at time 0 in an empty working
  directory with no checkpoints directory, and metrics as the trainer reports them.\<close>

definition demo_runner :: "(nat, nat) runner" where
  "demo_runner = init_runner ''zbot'' True True 1000 0 [] Map.empty Map.empty"

definition demo_metrics :: "string \<rightharpoonup> rat" where
  "demo_metrics = [''eval/episode_reward'' \<mapsto> 7 / 2, ''eval/episode_reward_std'' \<mapsto> 1 / 5]"

definition demo_ticks :: "(int \<times> int \<times> (string \<rightharpoonup> rat)) list" where
  "demo_ticks = [(3, 0, demo_metrics), (8, 5, demo_metrics)]"

text \<open>A stub environment: the state counts the steps taken, every state (the one
  returned by reset too) carries reward 1, and rendering gives one frame per state.\<close>

definition stub_env :: "(nat, nat, unit, nat, nat) mjx_env" where
  "stub_env =
    \<lparr> env_reset = (\<lambda>rng. 0), env_step = (\<lambda>state ctrl. Suc state),
      env_render = (\<lambda>traj fns. traj), env_dt = 1 / 50,
      state_obs = (\<lambda>state. state), state_reward = (\<lambda>state. 1) \<rparr>"

definition stub_lib :: "(nat, nat, unit, nat) policy_lib" where
  "stub_lib =
    \<lparr> random_PRNGKey = (\<lambda>seed. seed), random_split = (\<lambda>rng. (rng, Suc rng)),
      make_inference_fn = (\<lambda>p ob rng. ()) \<rparr>"

text \<open>A runner whose environment is configured with \<^verbatim>\<open>episode_length = 4\<close>.\<close>

definition stub_runner :: "(nat, nat) runner" where
  "stub_runner = init_runner ''stub'' False False 4 0 [] Map.empty Map.empty"

text \<open>A runner that finds two checkpoints of its environment on disk, without snapshots,
  and the same runner after a training run that recorded the steps 0 and 20.\<close>

definition saved_runner :: "(nat, nat) runner" where
  "saved_runner = demo_runner\<lparr>checkpoints :=
     [''zbot'' \<mapsto> \<lparr>ckpt_steps = [(5, Some 42), (10, Some 43)], dir_files = Map.empty\<rparr>]\<rparr>"

definition trained_runner :: "(nat, nat) runner" where
  "trained_runner = saved_runner\<lparr>training_state := (training_state saved_runner)
     \<lparr>x_data := [0, 20], y_data := [7 / 2, 4], y_dataerr := [1 / 5, 1 / 5],
      times_seq := [0, 3, 8], params := Some 7\<rparr>\<rparr>"

text \<open>The runner that finds the two checkpoints, after it has loaded the parameters of
  step 5: it holds parameters and has recorded no step.\<close>

definition loaded_runner :: "(nat, nat) runner" where
  "loaded_runner = saved_runner\<lparr>training_state := (training_state saved_runner)
     \<lparr>params := Some 42\<rparr>\<rparr>"

text \<open>The JSON document of the hyperparameters of these runners, which are built in debug
  mode.\<close>

definition debug_config_json :: json where
  "debug_config_json = JObj
    [(''num_timesteps'', JInt 5),
     (''num_evals'', JInt 15),
     (''reward_scaling'', JFloat 1),
     (''episode_length'', JInt 1),
     (''normalize_observations'', JBool True),
     (''action_repeat'', JInt 1),
     (''unroll_length'', JInt 20),
     (''num_minibatches'', JInt 1),
     (''num_updates_per_batch'', JInt 1),
     (''discounting'', JFloat (97 / 100)),
     (''learning_rate'', JFloat (3 / 10000)),
     (''entropy_cost'', JFloat (1 / 100)),
     (''num_envs'', JInt 1),
     (''batch_size'', JInt 2),
     (''max_grad_norm'', JFloat 1),
     (''clipping_epsilon'', JFloat (2 / 10)),
     (''num_resets_per_eval'', JInt 1),
     (''network_factory'', JObj
        [(''policy_hidden_layer_sizes'', JArr [JInt 512, JInt 256, JInt 128]),
         (''value_hidden_layer_sizes'', JArr [JInt 512, JInt 256, JInt 128]),
         (''policy_obs_key'', JStr ''state''),
         (''value_obs_key'', JStr ''privileged_state'')])]"

section \<open>Evaluating the concrete runs\<close>

lemmas demo_defs =
  demo_ticks_def demo_runner_def demo_metrics_def init_runner_def get_rl_config_dict_def
  Let_def logger_info_def progress_callback_def to_dict_def asdict_def
  create_training_config_def default_network_factory_def

lemma init_runner_training_state:
  "training_state (init_runner name dbg sv ep now lg cwd ck) =
    \<lparr> x_data = [], y_data = [], y_dataerr = [], times_seq = [now],
      rl_config = to_dict (create_training_config dbg ep), params = None \<rparr>"
  by (simp add: init_runner_def get_rl_config_dict_def Let_def logger_info_def)

lemma demo_tick_done:
  "progress_callback 3 0 demo_metrics demo_runner =
    Done (the_state (progress_callback 3 0 demo_metrics demo_runner))"
  by (simp add: demo_defs)

lemma demo_ticks_done:
  "run_callbacks demo_ticks demo_runner = Done (the_state (run_callbacks demo_ticks demo_runner))"
  by (simp add: demo_defs)

section \<open>Progress Reporter: the parallel sequences\<close>

lemma progress_callback_Done:
  assumes "progress_callback now n m r = Done r'"
  shows "x_data (training_state r') = x_data (training_state r) @ [n]"
    and "times_seq (training_state r') = times_seq (training_state r) @ [now]"
    and "\<exists>y. m ''eval/episode_reward'' = Some y \<and>
           y_data (training_state r') = y_data (training_state r) @ [y]"
    and "\<exists>y. m ''eval/episode_reward_std'' = Some y \<and>
           y_dataerr (training_state r') = y_dataerr (training_state r) @ [y]"
  using assms
  by (auto simp: progress_callback_def Let_def split: option.splits)

lemma run_callbacks_lengths:
  "run_callbacks ticks r = Done r' \<Longrightarrow>
    length (x_data (training_state r')) = length (x_data (training_state r)) + length ticks \<and>
    length (y_data (training_state r')) = length (y_data (training_state r)) + length ticks \<and>
    length (y_dataerr (training_state r')) =
      length (y_dataerr (training_state r)) + length ticks \<and>
    length (times_seq (training_state r')) =
      length (times_seq (training_state r)) + length ticks"
proof (induction ticks arbitrary: r)
  case Nil
  then show ?case by simp
next
  case (Cons tick ticks)
  obtain now n m where tick: "tick = (now, n, m)" by (cases tick)
  from Cons.prems tick obtain r1 where
    first: "progress_callback now n m r = Done r1" and rest: "run_callbacks ticks r1 = Done r'"
    by (auto split: result.splits)
  from progress_callback_Done[OF first] Cons.IH[OF rest] show ?case by auto
qed

text \<open>
  Claim C1. A runner is built with \<open>x_data\<close>, \<open>y_data\<close> and \<open>y_dataerr\<close> empty and \<open>times\<close>
  holding exactly the construction time. Every call of \<open>progress_callback\<close> that returns
  has appended exactly one entry to each of the four sequences. Hence after \<open>N\<close> ticks that
  all returned, starting from the runner as built, the lengths are \<open>N\<close>, \<open>N\<close>, \<open>N\<close> and
  \<open>N + 1\<close>.
\<close>

theorem training_state_sequences:
  "x_data (training_state (init_runner name dbg sv ep now lg cwd ck)) = [] \<and>
   y_data (training_state (init_runner name dbg sv ep now lg cwd ck)) = [] \<and>
   y_dataerr (training_state (init_runner name dbg sv ep now lg cwd ck)) = [] \<and>
   times_seq (training_state (init_runner name dbg sv ep now lg cwd ck)) = [now] \<and>
   (progress_callback t n m r = Done r' \<longrightarrow>
      length (x_data (training_state r')) = length (x_data (training_state r)) + 1 \<and>
      length (y_data (training_state r')) = length (y_data (training_state r)) + 1 \<and>
      length (y_dataerr (training_state r')) = length (y_dataerr (training_state r)) + 1 \<and>
      length (times_seq (training_state r')) = length (times_seq (training_state r)) + 1) \<and>
   (run_callbacks ticks (init_runner name dbg sv ep now lg cwd ck) = Done r'' \<longrightarrow>
      length (x_data (training_state r'')) = length ticks \<and>
      length (y_data (training_state r'')) = length ticks \<and>
      length (y_dataerr (training_state r'')) = length ticks \<and>
      length (times_seq (training_state r'')) = length ticks + 1)"
proof -
  have one: "progress_callback t n m r = Done r' \<longrightarrow>
      length (x_data (training_state r')) = length (x_data (training_state r)) + 1 \<and>
      length (y_data (training_state r')) = length (y_data (training_state r)) + 1 \<and>
      length (y_dataerr (training_state r')) = length (y_dataerr (training_state r)) + 1 \<and>
      length (times_seq (training_state r')) = length (times_seq (training_state r)) + 1"
    using progress_callback_Done[of t n m r r'] by auto
  have run: "run_callbacks ticks (init_runner name dbg sv ep now lg cwd ck) = Done r'' \<longrightarrow>
      length (x_data (training_state r'')) = length ticks \<and>
      length (y_data (training_state r'')) = length ticks \<and>
      length (y_dataerr (training_state r'')) = length ticks \<and>
      length (times_seq (training_state r'')) = length ticks + 1"
    using run_callbacks_lengths[of ticks "init_runner name dbg sv ep now lg cwd ck" r'']
    by (simp add: init_runner_training_state)
  show ?thesis using one run by (simp add: init_runner_training_state)
qed

text \<open>Witness for C1: the first tick of the demo run, and the demo run of two ticks, both
  return; the lengths are then 1, 1, 1, 2 and 2, 2, 2, 3.\<close>

theorem training_state_sequences_witness:
  "progress_callback 3 0 demo_metrics demo_runner =
     Done (the_state (progress_callback 3 0 demo_metrics demo_runner)) \<and>
   run_callbacks demo_ticks demo_runner = Done (the_state (run_callbacks demo_ticks demo_runner)) \<and>
   length (x_data (training_state (the_state (progress_callback 3 0 demo_metrics demo_runner)))) = 1 \<and>
   length (times_seq (training_state (the_state (progress_callback 3 0 demo_metrics demo_runner)))) = 2 \<and>
   length (x_data (training_state (the_state (run_callbacks demo_ticks demo_runner)))) = 2 \<and>
   length (y_data (training_state (the_state (run_callbacks demo_ticks demo_runner)))) = 2 \<and>
   length (y_dataerr (training_state (the_state (run_callbacks demo_ticks demo_runner)))) = 2 \<and>
   length (times_seq (training_state (the_state (run_callbacks demo_ticks demo_runner)))) = 3"
proof -
  have len: "length demo_ticks = 2" by (simp add: demo_ticks_def)
  have start: "length (x_data (training_state demo_runner)) = 0"
    "length (times_seq (training_state demo_runner)) = 1"
    by (simp_all add: demo_runner_def init_runner_training_state)
  show ?thesis
    using training_state_sequences[of "''zbot''" True True 1000 0 "[]" Map.empty Map.empty
        3 0 demo_metrics demo_runner "the_state (progress_callback 3 0 demo_metrics demo_runner)"
        demo_ticks "the_state (run_callbacks demo_ticks demo_runner)"]
      demo_tick_done demo_ticks_done len start
    by (simp add: demo_runner_def [symmetric])
qed

section \<open>Configuration Builder: debug and production values\<close>

text \<open>
  Claim C2, as stated, fails: \<open>num_evals\<close> is 15 with the debug flag set, which is neither 1
  nor 2, and it is 15 with the flag unset too, so the debug value is not strictly smaller.
\<close>

theorem debug_counts_counterexample:
  "\<not> (num_evals (create_training_config True 1000) \<in> {1, 2} \<and>
      num_evals (create_training_config True 1000)
        < num_evals (create_training_config False 1000))"
  by (simp add: create_training_config_def)

text \<open>
  Claim C2, amended. With the debug flag set, \<open>num_minibatches\<close>, \<open>num_updates_per_batch\<close> and
  \<open>num_envs\<close> are 1, \<open>batch_size\<close> is 2 and \<open>num_timesteps\<close> is 5; with the flag unset they are
  32, 4, 32, 256 and 500000000, so each debug value is strictly smaller. \<open>num_evals\<close> (15),
  \<open>unroll_length\<close> (20) and \<open>num_resets_per_eval\<close> (1) do not depend on the debug flag.
\<close>

theorem debug_counts:
  "num_timesteps (create_training_config True ep) = 5 \<and>
   num_timesteps (create_training_config False ep) = 500000000 \<and>
   num_minibatches (create_training_config True ep) = 1 \<and>
   num_minibatches (create_training_config False ep) = 32 \<and>
   num_updates_per_batch (create_training_config True ep) = 1 \<and>
   num_updates_per_batch (create_training_config False ep) = 4 \<and>
   num_envs (create_training_config True ep) = 1 \<and>
   num_envs (create_training_config False ep) = 32 \<and>
   batch_size (create_training_config True ep) = 2 \<and>
   batch_size (create_training_config False ep) = 256 \<and>
   num_evals (create_training_config dbg ep) = 15 \<and>
   unroll_length (create_training_config dbg ep) = 20 \<and>
   num_resets_per_eval (create_training_config dbg ep) = 1"
  by (simp add: create_training_config_def)

section \<open>TrainingConfig.to_dict\<close>


lemma those_items_Some:
  "(\<And>kv. kv \<in> set kvs \<Longrightarrow> snd kv \<noteq> None) \<Longrightarrow> \<exists>ys. those_items kvs = Some ys"
proof (induction kvs)
  case Nil
  then show ?case by simp
next
  case (Cons kv kvs)
  obtain k v where kv: "kv = (k, v)" by (cases kv)
  from Cons.prems[of kv] kv obtain y where y: "v = Some y" by auto
  from Cons.IH Cons.prems obtain ys where "those_items kvs = Some ys" by auto
  with kv y show ?case by simp
qed

lemma those_items_keys: "those_items kvs = Some ys \<Longrightarrow> map fst ys = map fst kvs"
proof (induction kvs arbitrary: ys rule: those_items.induct)
  case 1
  then show ?case by simp
next
  case (2 k kvs)
  then show ?case by simp
next
  case (3 k v kvs)
  then show ?case by auto
qed

lemma those_Some: "(\<And>x. x \<in> set xs \<Longrightarrow> x \<noteq> None) \<Longrightarrow> \<exists>ys. those xs = Some ys"
proof (induction xs)
  case Nil
  then show ?case by simp
next
  case (Cons x xs)
  from Cons.prems[of x] obtain y where "x = Some y" by auto
  moreover from Cons.IH Cons.prems obtain ys where "those xs = Some ys" by auto
  ultimately show ?case by simp
qed

lemma json_encode_cfgval: "\<exists>j. json_encode (cfgval_to_py v) = Some j"
proof (induction v)
  case (CScalar s)
  then show ?case by simp
next
  case (CTuple ss)
  have "\<exists>ys. those (map json_encode (map PScalar ss)) = Some ys"
    by (rule those_Some) auto
  then show ?case by auto
next
  case (CSub kvs)
  have "\<exists>ys. those_items (map (map_prod id json_encode) (map (map_prod id cfgval_to_py) kvs)) = Some ys"
  proof (rule those_items_Some)
    fix kv
    assume "kv \<in> set (map (map_prod id json_encode) (map (map_prod id cfgval_to_py) kvs))"
    then obtain k v where in_kvs: "(k, v) \<in> set kvs" and kv: "kv = (k, json_encode (cfgval_to_py v))"
      by auto
    from CSub.IH[OF in_kvs] have "\<exists>j. json_encode (cfgval_to_py v) = Some j" by simp
    with kv show "snd kv \<noteq> None" by auto
  qed
  then show ?case by auto
qed

lemma plain_cfgval: "plain (cfgval_to_py v)"
proof (induction v)
  case (CScalar s)
  then show ?case by simp
next
  case (CTuple ss)
  then show ?case by (simp add: list_all_iff)
next
  case (CSub kvs)
  then show ?case by (fastforce simp: list_all_iff)
qed

lemma json_encode_cfg_to_dict: "\<exists>j. json_encode (PDict (cfg_to_dict kvs)) = Some j"
  using json_encode_cfgval[of "CSub kvs"] by (simp add: cfg_to_dict_def)

lemma plain_cfg_to_dict: "plain (PDict (cfg_to_dict kvs))"
  using plain_cfgval[of "CSub kvs"] by (simp add: cfg_to_dict_def)

lemma to_dict_keys: "map fst (to_dict c) = declared_fields"
  by (simp add: to_dict_def asdict_def declared_fields_def Let_def)

lemma to_dict_ConfigDict:
  assumes "network_factory c = PConfig kvs"
  shows "map_of (to_dict c) ''network_factory'' = Some (PDict (cfg_to_dict kvs))"
    and "plain (PDict (to_dict c))"
    and "\<exists>j. json_encode (PDict (to_dict c)) = Some j"
proof -
  show "map_of (to_dict c) ''network_factory'' = Some (PDict (cfg_to_dict kvs))"
    using assms by (simp add: to_dict_def asdict_def Let_def)
  show "plain (PDict (to_dict c))"
    using assms plain_cfg_to_dict[of kvs] by (simp add: to_dict_def asdict_def Let_def)
  obtain j where "json_encode (PDict (cfg_to_dict kvs)) = Some j"
    using json_encode_cfg_to_dict by blast
  then show "\<exists>j. json_encode (PDict (to_dict c)) = Some j"
    using assms by (auto simp: to_dict_def asdict_def Let_def)
qed

lemma json_roundtrip_keys:
  "json_encode (PDict kvs) = Some j \<Longrightarrow> dict_keys (json_decode j) = map fst kvs"
  by (auto simp: those_items_keys comp_def dest!: those_items_keys)

text \<open>
  Claim C6. For every TrainingConfig, the keys of \<open>to_dict()\<close> are exactly the 18 declared
  fields (17 scalar hyperparameters and \<open>network_factory\<close>), each once, in declaration order.
  When \<open>network_factory\<close> is a ConfigDict, as the dataclass declares, its entry in the result
  is a plain dictionary and no ConfigDict object is left anywhere in the result, so the
  result is serialised by \<open>json\<close>, and decoding the serialised form gives a dictionary with
  the same keys.
\<close>

theorem to_dict_fields:
  "map fst (to_dict c) = declared_fields \<and> distinct declared_fields \<and>
   length declared_fields = 18 \<and>
   (is_ConfigDict (network_factory c) \<longrightarrow>
      (\<exists>kvs. map_of (to_dict c) ''network_factory'' = Some (PDict kvs)) \<and>
      plain (PDict (to_dict c)) \<and>
      (\<exists>j. json_encode (PDict (to_dict c)) = Some j \<and>
           dict_keys (json_decode j) = declared_fields))"
proof -
  have "distinct declared_fields" "length declared_fields = 18"
    by (simp_all add: declared_fields_def)
  moreover have "is_ConfigDict (network_factory c) \<longrightarrow>
      (\<exists>kvs. map_of (to_dict c) ''network_factory'' = Some (PDict kvs)) \<and>
      plain (PDict (to_dict c)) \<and>
      (\<exists>j. json_encode (PDict (to_dict c)) = Some j \<and>
           dict_keys (json_decode j) = declared_fields)"
  proof
    assume "is_ConfigDict (network_factory c)"
    then obtain kvs where nf: "network_factory c = PConfig kvs"
      by (cases "network_factory c") auto
    from to_dict_ConfigDict[OF nf] obtain j where j: "json_encode (PDict (to_dict c)) = Some j"
      by blast
    from json_roundtrip_keys[OF j] to_dict_keys have "dict_keys (json_decode j) = declared_fields"
      by simp
    with j to_dict_ConfigDict[OF nf]
    show "(\<exists>kvs. map_of (to_dict c) ''network_factory'' = Some (PDict kvs)) \<and>
      plain (PDict (to_dict c)) \<and>
      (\<exists>j. json_encode (PDict (to_dict c)) = Some j \<and>
           dict_keys (json_decode j) = declared_fields)" by blast
  qed
  ultimately show ?thesis using to_dict_keys by blast
qed

text \<open>Witness for C6: the configuration built in debug mode has a ConfigDict as its
  \<open>network_factory\<close>.\<close>

theorem to_dict_fields_witness:
  "is_ConfigDict (network_factory (create_training_config True 1000)) \<and>
   map fst (to_dict (create_training_config True 1000)) = declared_fields \<and>
   plain (PDict (to_dict (create_training_config True 1000))) \<and>
   (\<exists>j. json_encode (PDict (to_dict (create_training_config True 1000))) = Some j \<and>
           dict_keys (json_decode j) = declared_fields)"
  using to_dict_fields[of "create_training_config True 1000"]
  by (simp add: create_training_config_def default_network_factory_def)

section \<open>Progress Reporter: a call that raises\<close>

text \<open>
  Claim C10, as stated, fails: it says that a call whose metrics lack
  \<open>eval/episode_reward\<close> raises when \<open>times\<close> has grown and \<open>x_data\<close> has not. On the runner as
  built, such a call raises the key error with \<open>x_data\<close> grown from 0 to 1 entries.
\<close>

theorem progress_callback_x_data_counterexample:
  "progress_callback 3 0 Map.empty demo_runner =
     Raised (KeyError ''eval/episode_reward'')
       (the_state (progress_callback 3 0 Map.empty demo_runner)) \<and>
   length (x_data (training_state demo_runner)) = 0 \<and>
   length (x_data (training_state (the_state (progress_callback 3 0 Map.empty demo_runner)))) = 1"
  by (simp add: demo_defs)

text \<open>
  Claim C10, amended. \<open>progress_callback\<close> mutates the training state before it reads the
  required metric keys, and the state is not restored when it raises. A call whose metrics
  lack \<open>eval/episode_reward\<close> raises a key error after \<open>times\<close> and \<open>x_data\<close> have each grown by
  one entry while \<open>y_data\<close> and \<open>y_dataerr\<close> have not; a call whose metrics lack only
  \<open>eval/episode_reward_std\<close> raises a key error after \<open>times\<close>, \<open>x_data\<close> and \<open>y_data\<close> have
  grown by one entry while \<open>y_dataerr\<close> has not.
\<close>

theorem progress_callback_not_atomic:
  "(metrics ''eval/episode_reward'' = None \<longrightarrow>
     (\<exists>r'. progress_callback now num_steps metrics r =
              Raised (KeyError ''eval/episode_reward'') r' \<and>
        times_seq (training_state r') = times_seq (training_state r) @ [now] \<and>
        x_data (training_state r') = x_data (training_state r) @ [num_steps] \<and>
        y_data (training_state r') = y_data (training_state r) \<and>
        y_dataerr (training_state r') = y_dataerr (training_state r))) \<and>
   (metrics ''eval/episode_reward'' = Some y \<and> metrics ''eval/episode_reward_std'' = None \<longrightarrow>
     (\<exists>r'. progress_callback now num_steps metrics r =
              Raised (KeyError ''eval/episode_reward_std'') r' \<and>
        times_seq (training_state r') = times_seq (training_state r) @ [now] \<and>
        x_data (training_state r') = x_data (training_state r) @ [num_steps] \<and>
        y_data (training_state r') = y_data (training_state r) @ [y] \<and>
        y_dataerr (training_state r') = y_dataerr (training_state r)))"
  by (simp add: progress_callback_def Let_def)

text \<open>Witness for C10: metrics without any key, and metrics with the reward only, on the
  runner as built.\<close>

theorem progress_callback_not_atomic_witness:
  "(Map.empty :: string \<rightharpoonup> rat) ''eval/episode_reward'' = None \<and>
   [''eval/episode_reward'' \<mapsto> (7 / 2 :: rat)] ''eval/episode_reward'' = Some (7 / 2) \<and>
   [''eval/episode_reward'' \<mapsto> (7 / 2 :: rat)] ''eval/episode_reward_std'' = None \<and>
   (\<exists>r'. progress_callback 3 0 Map.empty demo_runner =
            Raised (KeyError ''eval/episode_reward'') r' \<and>
      times_seq (training_state r') = [0, 3] \<and> x_data (training_state r') = [0] \<and>
      y_data (training_state r') = [] \<and> y_dataerr (training_state r') = []) \<and>
   (\<exists>r'. progress_callback 3 0 [''eval/episode_reward'' \<mapsto> 7 / 2] demo_runner =
            Raised (KeyError ''eval/episode_reward_std'') r' \<and>
      times_seq (training_state r') = [0, 3] \<and> x_data (training_state r') = [0] \<and>
      y_data (training_state r') = [7 / 2] \<and> y_dataerr (training_state r') = [])"
proof -
  have start: "training_state demo_runner =
    \<lparr> x_data = [], y_data = [], y_dataerr = [], times_seq = [0],
      rl_config = to_dict (create_training_config True 1000), params = None \<rparr>"
    by (simp add: demo_runner_def init_runner_training_state)
  show ?thesis
    using progress_callback_not_atomic[of Map.empty 3 0 demo_runner "7 / 2"]
      progress_callback_not_atomic[of "[''eval/episode_reward'' \<mapsto> 7 / 2]" 3 0 demo_runner "7 / 2"]
    by (simp add: start)
qed

section \<open>The checkpoint manager\<close>

lemma sorted_last_Max:
  fixes xs :: "int list"
  shows "sorted xs \<Longrightarrow> xs \<noteq> [] \<Longrightarrow> last xs = Max (set xs)"
proof (induction xs)
  case Nil
  then show ?case by simp
next
  case (Cons x xs)
  show ?case
  proof (cases "xs = []")
    case True
    then show ?thesis by simp
  next
    case False
    with Cons have last: "last xs = Max (set xs)" by simp
    from Cons.prems have "\<forall>y\<in>set xs. x \<le> y" by simp
    with False have "x \<le> Max (set xs)" by (meson List.finite_set Max_ge_iff set_empty last_in_set)
    with False last show ?thesis by (simp add: max_def)
  qed
qed

lemma Max_in_keep:
  fixes ks :: "int list"
  assumes "ks \<noteq> []" and "0 < n"
  shows "Max (set ks) \<in> set (take n (rev (sort (remdups ks))))"
proof -
  let ?ys = "rev (sort (remdups ks))"
  from assms(1) have ne: "sort (remdups ks) \<noteq> []"
    by (metis set_empty set_remdups set_sort)
  then have "hd ?ys = last (sort (remdups ks))" by (simp add: hd_rev)
  also have "\<dots> = Max (set (sort (remdups ks)))" using ne by (intro sorted_last_Max) simp_all
  also have "\<dots> = Max (set ks)" by simp
  finally have hd: "hd ?ys = Max (set ks)" .
  from ne assms(2) have "hd ?ys \<in> set (take n ?ys)"
    by (cases ?ys; cases n) simp_all
  with hd show ?thesis by simp
qed

lemma mgr_retain_steps:
  "set (map fst (mgr_retain n store)) = set (take n (rev (sort (remdups (map fst store)))))"
proof -
  have "set (take n (rev (sort (remdups (map fst store))))) \<subseteq> fst ` set store"
    using set_take_subset[of n "rev (sort (remdups (map fst store)))"] by auto
  then show ?thesis by (auto simp: mgr_retain_def Let_def)
qed

lemma mgr_retain_subset: "set (map fst (mgr_retain n store)) \<subseteq> set (map fst store)"
  by (auto simp: mgr_retain_def Let_def)

lemma mgr_retain_length: "length (remdups (map fst (mgr_retain n store))) \<le> n"
proof -
  have "length (remdups (map fst (mgr_retain n store))) =
      card (set (take n (rev (sort (remdups (map fst store))))))"
    by (simp only: length_remdups_card_conv mgr_retain_steps)
  also have "\<dots> \<le> length (take n (rev (sort (remdups (map fst store)))))"
    by (rule card_length)
  also have "\<dots> \<le> n" by simp
  finally show ?thesis .
qed

lemma map_of_filter_keys:
  "map_of (filter (\<lambda>kv. fst kv \<in> K) xs) k = (if k \<in> K then map_of xs k else None)"
  by (induction xs) auto

lemma mgr_retain_map_of:
  "map_of (mgr_retain n store) k =
    (if k \<in> set (take n (rev (sort (remdups (map fst store))))) then map_of store k else None)"
  by (simp only: mgr_retain_def Let_def map_of_filter_keys)

lemma mgr_retain_Max:
  assumes "store \<noteq> []" and "0 < n"
  shows "mgr_retain n store \<noteq> []"
    and "Max (set (map fst (mgr_retain n store))) = Max (set (map fst store))"
proof -
  from assms have "Max (set (map fst store)) \<in> set (take n (rev (sort (remdups (map fst store)))))"
    by (intro Max_in_keep) simp_all
  then have m: "Max (set (map fst store)) \<in> set (map fst (mgr_retain n store))"
    by (simp only: mgr_retain_steps)
  then show "mgr_retain n store \<noteq> []" by auto
  show "Max (set (map fst (mgr_retain n store))) = Max (set (map fst store))"
  proof (rule Max_eqI)
    show "finite (set (map fst (mgr_retain n store)))" by simp
    show "Max (set (map fst store)) \<in> set (map fst (mgr_retain n store))" by (rule m)
    fix y assume "y \<in> set (map fst (mgr_retain n store))"
    with mgr_retain_subset have "y \<in> set (map fst store)" by blast
    then show "y \<le> Max (set (map fst store))" by simp
  qed
qed

lemma mgr_latest_step_Max:
  "mgr_latest_step store = (if store = [] then None else Some (Max (set (map fst store))))"
proof (cases store)
  case Nil
  then show ?thesis by simp
next
  case (Cons kv rest)
  have "fold max (map fst rest) (fst kv) = Max (set (fst kv # map fst rest))"
    by (simp only: Max.set_eq_fold)
  with Cons show ?thesis by simp
qed

lemma mgr_restore_Inl:
  "mgr_restore store s = Inl e \<longleftrightarrow> e = FileNotFoundError \<and> s \<notin> set (map fst store)"
proof (cases "map_of store s")
  case None
  then have "s \<notin> fst ` set store" by (simp add: map_of_eq_None_iff)
  with None show ?thesis by (auto simp: mgr_restore_def)
next
  case (Some p)
  then have "s \<in> fst ` set store" by (metis map_of_eq_None_iff option.distinct(1))
  with Some show ?thesis by (simp add: mgr_restore_def)
qed

lemma mgr_restore_Inr: "mgr_restore store s = Inr p \<longleftrightarrow> map_of store s = Some p"
  by (auto simp: mgr_restore_def split: option.splits)

lemma mgr_save_nonempty: "mgr_save 5 step p store \<noteq> []"
proof -
  have "AList.update step p store \<noteq> []" by (cases store) auto
  then show ?thesis unfolding mgr_save_def by (intro mgr_retain_Max(1)) simp_all
qed

lemma mgr_save_steps_subset:
  "set (map fst (mgr_save n step p store)) \<subseteq> insert step (set (map fst store))"
  using mgr_retain_subset[of n "AList.update step p store"]
  by (auto simp: mgr_save_def dom_update)

lemma mgr_save_top:
  assumes "\<forall>s\<in>set (map fst store). s \<le> step" and "0 < n"
  shows "map_of (mgr_save n step p store) step = Some p"
proof -
  let ?st = "AList.update step p store"
  have keys: "set (map fst ?st) = insert step (set (map fst store))"
    using dom_update[of step p store] by simp
  have "Max (set (map fst ?st)) = step"
  proof (rule Max_eqI)
    show "finite (set (map fst ?st))" by simp
    show "step \<in> set (map fst ?st)" using keys by simp
    fix y assume "y \<in> set (map fst ?st)"
    with keys assms(1) show "y \<le> step" by auto
  qed
  moreover have "?st \<noteq> []" by (cases store) auto
  then have "Max (set (map fst ?st)) \<in> set (take n (rev (sort (remdups (map fst ?st)))))"
    using assms(2) by (intro Max_in_keep) simp_all
  ultimately show ?thesis
    by (simp add: mgr_save_def mgr_retain_map_of update_conv')
qed

section \<open>Checkpoint Store: what the operations leave behind\<close>

lemma logger_info_fields [simp]:
  "env_name (logger_info ev r) = env_name r"
  "args_debug (logger_info ev r) = args_debug r"
  "args_save_model (logger_info ev r) = args_save_model r"
  "env_config_episode_length (logger_info ev r) = env_config_episode_length r"
  "training_config (logger_info ev r) = training_config r"
  "training_state (logger_info ev r) = training_state r"
  "cwd_files (logger_info ev r) = cwd_files r"
  "checkpoints (logger_info ev r) = checkpoints r"
  "logger (logger_info ev r) = logger r @ [ev]"
  by (simp_all add: logger_info_def)

lemma set_ckpt_dir_fields [simp]:
  "env_name (set_ckpt_dir d r) = env_name r"
  "args_debug (set_ckpt_dir d r) = args_debug r"
  "args_save_model (set_ckpt_dir d r) = args_save_model r"
  "env_config_episode_length (set_ckpt_dir d r) = env_config_episode_length r"
  "training_config (set_ckpt_dir d r) = training_config r"
  "training_state (set_ckpt_dir d r) = training_state r"
  "cwd_files (set_ckpt_dir d r) = cwd_files r"
  "logger (set_ckpt_dir d r) = logger r"
  "checkpoints (set_ckpt_dir d r) = (checkpoints r)(env_name r \<mapsto> d)"
  by (simp_all add: set_ckpt_dir_def)

lemma mkdir_ckpt_dir_fields [simp]:
  "env_name (mkdir_ckpt_dir r) = env_name r"
  "args_debug (mkdir_ckpt_dir r) = args_debug r"
  "args_save_model (mkdir_ckpt_dir r) = args_save_model r"
  "env_config_episode_length (mkdir_ckpt_dir r) = env_config_episode_length r"
  "training_config (mkdir_ckpt_dir r) = training_config r"
  "training_state (mkdir_ckpt_dir r) = training_state r"
  "cwd_files (mkdir_ckpt_dir r) = cwd_files r"
  "logger (mkdir_ckpt_dir r) = logger r"
  "checkpoints (mkdir_ckpt_dir r) = (checkpoints r)(env_name r \<mapsto> ckpt_dir r)"
  by (auto simp: mkdir_ckpt_dir_def ckpt_dir_def split: option.splits)

lemma ckpt_dir_after [simp]:
  "ckpt_dir (logger_info ev r) = ckpt_dir r"
  "ckpt_dir (set_ckpt_dir d r) = d"
  "ckpt_dir (mkdir_ckpt_dir r) = ckpt_dir r"
  by (simp_all add: ckpt_dir_def)

lemma ckpt_dir_Some: "checkpoints r (env_name r) = Some d \<Longrightarrow> ckpt_dir r = d"
  by (simp add: ckpt_dir_def)

text \<open>\<^verbatim>\<open>save_model\<close> when the hyperparameters serialise, and when they do not.\<close>

lemma save_model_Done:
  assumes "json_encode (PDict (to_dict (training_config r))) = Some j"
  shows "\<exists>r'. save_model r = Done r' \<and>
    env_name r' = env_name r \<and> training_config r' = training_config r \<and>
    training_state r' = training_state r \<and> cwd_files r' = cwd_files r \<and>
    logger r' = logger r @ [Log_rl_config (to_dict (training_config r)),
                           Log_model_saved (last_recorded_step r) (env_name r)] \<and>
    checkpoints r' = (checkpoints r)(env_name r \<mapsto> ckpt_dir r') \<and>
    ckpt_steps (ckpt_dir r') =
      mgr_save 5 (last_recorded_step r) (params (training_state r)) (ckpt_steps (ckpt_dir r)) \<and>
    dir_files (ckpt_dir r') =
      (dir_files (ckpt_dir r))(config_step_json (last_recorded_step r) \<mapsto> Json_text j)"
  using assms
  by (simp add: save_model_def Let_def get_rl_config_dict_def dump_config_def
      last_recorded_step_def del: json_encode.simps)

lemma save_model_Raised:
  assumes "json_encode (PDict (to_dict (training_config r))) = None"
  shows "\<exists>r'. save_model r = Raised TypeError r' \<and>
    ckpt_steps (ckpt_dir r') =
      mgr_save 5 (last_recorded_step r) (params (training_state r)) (ckpt_steps (ckpt_dir r)) \<and>
    dir_files (ckpt_dir r') =
      (dir_files (ckpt_dir r))(config_step_json (last_recorded_step r) \<mapsto> Broken_text)"
  using assms
  by (simp add: save_model_def Let_def get_rl_config_dict_def dump_config_def
      last_recorded_step_def del: json_encode.simps)

lemma save_rl_config_dict_Done:
  assumes "json_encode (PDict (to_dict (training_config r))) = Some j"
  shows "\<exists>r'. save_rl_config_dict path r = Done r' \<and>
    checkpoints r' = (checkpoints r)(env_name r \<mapsto> ckpt_dir r') \<and>
    ckpt_steps (ckpt_dir r') = ckpt_steps (ckpt_dir r) \<and>
    dir_files (ckpt_dir r') = (dir_files (ckpt_dir r))(''config.json'' \<mapsto> Json_text j)"
  using assms by (simp add: save_rl_config_dict_def dump_config_def Let_def del: json_encode.simps)

lemma config_step_json_neq: "config_step_json step \<noteq> ''config.json''"
  by (simp add: config_step_json_def)

lemma save_model_other_files:
  assumes "name \<noteq> config_step_json (last_recorded_step r)"
  shows "dir_files (ckpt_dir (the_state (save_model r))) name = dir_files (ckpt_dir r) name"
proof (cases "json_encode (PDict (to_dict (training_config r)))")
  case None
  from save_model_Raised[OF None] assms show ?thesis by auto
next
  case (Some j)
  from save_model_Done[OF Some] assms show ?thesis by auto
qed

lemma demo_encodes: "\<exists>j. json_encode (PDict (to_dict (training_config demo_runner))) = Some j"
proof -
  have "network_factory (training_config demo_runner) = default_network_factory"
    by (simp add: demo_runner_def init_runner_def get_rl_config_dict_def Let_def
        create_training_config_def)
  then show ?thesis
    using to_dict_ConfigDict(3)[of "training_config demo_runner"]
    by (simp add: default_network_factory_def)
qed

text \<open>\<^verbatim>\<open>load_model\<close>, by the step it works with.\<close>

lemma load_model_requested:
  "load_model step r =
    (case checkpoints r (env_name r) of
       None \<Rightarrow> Raised FileNotFoundError r
     | Some d \<Rightarrow>
        (case requested_step step d of
           None \<Rightarrow> Raised FileNotFoundError r
         | Some s \<Rightarrow> load_step s d r))"
  by (simp add: load_model_def requested_step_def split: option.splits)

lemma load_step_not_found:
  "load_step s d r = Raised FileNotFoundError r' \<longleftrightarrow> r' = r \<and> s \<notin> set (map fst (ckpt_steps d))"
proof (cases "mgr_restore (ckpt_steps d) s")
  case (Inl e)
  then have "e = FileNotFoundError" "s \<notin> set (map fst (ckpt_steps d))"
    by (simp_all add: mgr_restore_Inl)
  with Inl show ?thesis by (auto simp: load_step_def)
next
  case (Inr p)
  then have "map_of (ckpt_steps d) s = Some p" by (simp add: mgr_restore_Inr)
  then have "s \<in> set (map fst (ckpt_steps d))"
    by (metis map_of_eq_None_iff option.distinct(1) set_map)
  with Inr show ?thesis by (auto simp: load_step_def Let_def split: option.splits)
qed

lemma load_step_restored:
  assumes "mgr_restore (ckpt_steps d) s = Inr p"
  shows "params (training_state (the_state (load_step s d r))) = p"
    and "snapshot_readable s d \<Longrightarrow> is_done (load_step s d r)"
    and "dir_files d (config_step_json s) = None \<Longrightarrow>
          load_step s d r =
            Done (logger_info (Log_model_loaded s) (r\<lparr>training_state := (training_state r)\<lparr>params := p\<rparr>\<rparr>))"
    and "dir_files d (config_step_json s) = Some (Json_text j) \<Longrightarrow>
          load_step s d r =
            Done (logger_info (Log_model_loaded s)
                   (logger_info (Log_loaded_configuration (config_step_json s))
                      (r\<lparr>training_state := (training_state r)\<lparr>params := p\<rparr>\<rparr>)))"
  using assms
  by (auto simp: load_step_def Let_def snapshot_readable_def split: option.splits)

lemma save_model_keeps_readable:
  assumes "snapshots_readable (ckpt_dir r0)" and "save_model r0 = Done r"
  shows "snapshots_readable (ckpt_dir r)"
proof -
  obtain j where enc: "json_encode (PDict (to_dict (training_config r0))) = Some j"
    using assms(2) save_model_Raised[of r0]
    by (cases "json_encode (PDict (to_dict (training_config r0)))") auto
  from save_model_Done[OF enc] assms(2) have
    steps: "ckpt_steps (ckpt_dir r) = mgr_save 5 (last_recorded_step r0)
              (params (training_state r0)) (ckpt_steps (ckpt_dir r0))" and
    files: "dir_files (ckpt_dir r) =
              (dir_files (ckpt_dir r0))(config_step_json (last_recorded_step r0) \<mapsto> Json_text j)"
    by auto
  have "snapshot_readable s (ckpt_dir r)" if s: "s \<in> set (map fst (ckpt_steps (ckpt_dir r)))" for s
  proof (cases "config_step_json s = config_step_json (last_recorded_step r0)")
    case True
    with files show ?thesis by (simp add: snapshot_readable_def)
  next
    case False
    then have "s \<noteq> last_recorded_step r0" by auto
    with s steps mgr_save_steps_subset[of 5 "last_recorded_step r0" "params (training_state r0)"
        "ckpt_steps (ckpt_dir r0)"]
    have "s \<in> set (map fst (ckpt_steps (ckpt_dir r0)))" by auto
    with assms(1) have "snapshot_readable s (ckpt_dir r0)"
      by (auto simp: snapshots_readable_def list_all_iff)
    with False files show ?thesis by (simp add: snapshot_readable_def)
  qed
  then show ?thesis by (auto simp: snapshots_readable_def list_all_iff)
qed

lemma load_latest:
  assumes d: "checkpoints r (env_name r) = Some d" and ne: "ckpt_steps d \<noteq> []"
  shows "\<exists>p. map_of (ckpt_steps d) (Max (set (map fst (ckpt_steps d)))) = Some p \<and>
              load_model None r = load_step (Max (set (map fst (ckpt_steps d)))) d r \<and>
              mgr_restore (ckpt_steps d) (Max (set (map fst (ckpt_steps d)))) = Inr p"
proof -
  let ?m = "Max (set (map fst (ckpt_steps d)))"
  from ne have "?m \<in> set (map fst (ckpt_steps d))" by (intro Max_in) simp_all
  then obtain p where p: "map_of (ckpt_steps d) ?m = Some p"
    by (metis map_of_eq_None_iff not_Some_eq set_map)
  moreover have "load_model None r = load_step ?m d r"
    using d ne by (simp add: load_model_def mgr_latest_step_Max)
  ultimately show ?thesis by (simp add: mgr_restore_Inr)
qed

section \<open>Checkpoint Store: load\<close>

text \<open>
  Claim C3. \<open>load_model\<close> fails with the not-found condition exactly when the requested
  checkpoint is unavailable, that is when the directory \<open>checkpoints/<env_name>\<close> does not
  exist, when no explicit step is given and the directory holds no checkpoint, and when
  the explicit step is not among the checkpoints; the runner is then unchanged. Called with
  no explicit step on a directory that holds a checkpoint, it restores the parameters of
  the highest saved step into the training state, and it returns when the snapshot of
  that step is absent or readable. In particular this is so after a \<open>save_model\<close> that
  returned, in a directory whose snapshots were readable before.
\<close>

theorem load_model_not_found:
  "(\<not> checkpoint_available step r \<longrightarrow> load_model step r = Raised FileNotFoundError r) \<and>
   (checkpoint_available step r \<longrightarrow> load_model step r \<noteq> Raised FileNotFoundError r') \<and>
   (checkpoints r (env_name r) = Some d \<and> ckpt_steps d \<noteq> [] \<longrightarrow>
      (\<exists>p. map_of (ckpt_steps d) (Max (set (map fst (ckpt_steps d)))) = Some p \<and>
           params (training_state (the_state (load_model None r))) = p) \<and>
      (snapshot_readable (Max (set (map fst (ckpt_steps d)))) d \<longrightarrow>
         is_done (load_model None r))) \<and>
   (snapshots_readable (ckpt_dir r0) \<and> save_model r0 = Done r1 \<longrightarrow>
      checkpoint_available None r1 \<and> is_done (load_model None r1))"
proof -
  have unavailable:
    "\<not> checkpoint_available step r \<longrightarrow> load_model step r = Raised FileNotFoundError r"
  proof
    assume na: "\<not> checkpoint_available step r"
    show "load_model step r = Raised FileNotFoundError r"
    proof (cases "checkpoints r (env_name r)")
      case None
      then show ?thesis by (simp add: load_model_def)
    next
      case (Some d)
      show ?thesis
      proof (cases step)
        case None
        with Some na show ?thesis by (simp add: load_model_def checkpoint_available_def)
      next
        case (Some s)
        with \<open>checkpoints r (env_name r) = Some d\<close> na
        have "s \<notin> set (map fst (ckpt_steps d))" by (simp add: checkpoint_available_def)
        then have "load_step s d r = Raised FileNotFoundError r"
          by (simp add: load_step_not_found)
        with Some \<open>checkpoints r (env_name r) = Some d\<close> show ?thesis
          by (simp add: load_model_def)
      qed
    qed
  qed
  have available:
    "checkpoint_available step r \<longrightarrow> load_model step r \<noteq> Raised FileNotFoundError r'"
  proof
    assume av: "checkpoint_available step r"
    then obtain d where d: "checkpoints r (env_name r) = Some d"
      by (auto simp: checkpoint_available_def split: option.splits)
    show "load_model step r \<noteq> Raised FileNotFoundError r'"
    proof (cases step)
      case None
      with av d have ne: "ckpt_steps d \<noteq> []" by (simp add: checkpoint_available_def)
      from load_latest[OF d ne] obtain p where
        "load_model None r = load_step (Max (set (map fst (ckpt_steps d)))) d r"
        "map_of (ckpt_steps d) (Max (set (map fst (ckpt_steps d)))) = Some p" by blast
      moreover from this(2) have "Max (set (map fst (ckpt_steps d))) \<in> set (map fst (ckpt_steps d))"
        by (metis map_of_eq_None_iff option.distinct(1) set_map)
      ultimately show ?thesis using None by (simp add: load_step_not_found)
    next
      case (Some s)
      with av d have "s \<in> set (map fst (ckpt_steps d))" by (simp add: checkpoint_available_def)
      with Some d show ?thesis by (simp add: load_model_def load_step_not_found)
    qed
  qed
  have latest: "checkpoints r (env_name r) = Some d \<and> ckpt_steps d \<noteq> [] \<longrightarrow>
      (\<exists>p. map_of (ckpt_steps d) (Max (set (map fst (ckpt_steps d)))) = Some p \<and>
           params (training_state (the_state (load_model None r))) = p) \<and>
      (snapshot_readable (Max (set (map fst (ckpt_steps d)))) d \<longrightarrow>
         is_done (load_model None r))"
  proof
    assume "checkpoints r (env_name r) = Some d \<and> ckpt_steps d \<noteq> []"
    then have d: "checkpoints r (env_name r) = Some d" and ne: "ckpt_steps d \<noteq> []" by simp_all
    from load_latest[OF d ne] obtain p where
      p: "map_of (ckpt_steps d) (Max (set (map fst (ckpt_steps d)))) = Some p" and
      l: "load_model None r = load_step (Max (set (map fst (ckpt_steps d)))) d r" and
      m: "mgr_restore (ckpt_steps d) (Max (set (map fst (ckpt_steps d)))) = Inr p" by blast
    from load_step_restored(1,2)[OF m, of r] p l
    show "(\<exists>p. map_of (ckpt_steps d) (Max (set (map fst (ckpt_steps d)))) = Some p \<and>
           params (training_state (the_state (load_model None r))) = p) \<and>
      (snapshot_readable (Max (set (map fst (ckpt_steps d)))) d \<longrightarrow>
         is_done (load_model None r))" by simp
  qed
  have after_save: "snapshots_readable (ckpt_dir r0) \<and> save_model r0 = Done r1 \<longrightarrow>
      checkpoint_available None r1 \<and> is_done (load_model None r1)"
  proof
    assume "snapshots_readable (ckpt_dir r0) \<and> save_model r0 = Done r1"
    then have rd: "snapshots_readable (ckpt_dir r0)" and sv: "save_model r0 = Done r1" by simp_all
    obtain j where enc: "json_encode (PDict (to_dict (training_config r0))) = Some j"
      using sv save_model_Raised[of r0]
      by (cases "json_encode (PDict (to_dict (training_config r0)))") auto
    from save_model_Done[OF enc] sv have
      name: "env_name r1 = env_name r0" and
      ck: "checkpoints r1 = (checkpoints r0)(env_name r0 \<mapsto> ckpt_dir r1)" and
      steps: "ckpt_steps (ckpt_dir r1) = mgr_save 5 (last_recorded_step r0)
                (params (training_state r0)) (ckpt_steps (ckpt_dir r0))"
      by auto
    from name ck have d: "checkpoints r1 (env_name r1) = Some (ckpt_dir r1)" by simp
    from steps have ne: "ckpt_steps (ckpt_dir r1) \<noteq> []" by (simp add: mgr_save_nonempty)
    from ne have "Max (set (map fst (ckpt_steps (ckpt_dir r1)))) \<in> set (map fst (ckpt_steps (ckpt_dir r1)))"
      by (intro Max_in) simp_all
    with save_model_keeps_readable[OF rd sv]
    have "snapshot_readable (Max (set (map fst (ckpt_steps (ckpt_dir r1))))) (ckpt_dir r1)"
      unfolding snapshots_readable_def list_all_iff by blast
    moreover from load_latest[OF d ne] obtain p where
      "load_model None r1 = load_step (Max (set (map fst (ckpt_steps (ckpt_dir r1))))) (ckpt_dir r1) r1"
      "mgr_restore (ckpt_steps (ckpt_dir r1)) (Max (set (map fst (ckpt_steps (ckpt_dir r1))))) = Inr p"
      by blast
    ultimately have "is_done (load_model None r1)" using load_step_restored(2) by metis
    with d ne show "checkpoint_available None r1 \<and> is_done (load_model None r1)"
      by (simp add: checkpoint_available_def)
  qed
  from unavailable available latest after_save show ?thesis by blast
qed

lemma demo_runner_fields:
  "env_name demo_runner = ''zbot''"
  "args_save_model demo_runner = True"
  "training_config demo_runner = create_training_config True 1000"
  "checkpoints demo_runner = Map.empty"
  "cwd_files demo_runner = Map.empty"
  by (simp_all add: demo_runner_def init_runner_def get_rl_config_dict_def Let_def logger_info_def)

lemma saved_runner_fields:
  "env_name saved_runner = ''zbot''"
  "training_config saved_runner = create_training_config True 1000"
  "training_state saved_runner = training_state demo_runner"
  "checkpoints saved_runner =
     [''zbot'' \<mapsto> \<lparr>ckpt_steps = [(5, Some 42), (10, Some 43)], dir_files = Map.empty\<rparr>]"
  "ckpt_dir saved_runner = \<lparr>ckpt_steps = [(5, Some 42), (10, Some 43)], dir_files = Map.empty\<rparr>"
  by (simp_all add: saved_runner_def demo_runner_fields ckpt_dir_def)

lemma trained_runner_fields:
  "env_name trained_runner = ''zbot''"
  "training_config trained_runner = create_training_config True 1000"
  "x_data (training_state trained_runner) = [0, 20]"
  "params (training_state trained_runner) = Some 7"
  "ckpt_dir trained_runner = \<lparr>ckpt_steps = [(5, Some 42), (10, Some 43)], dir_files = Map.empty\<rparr>"
  "last_recorded_step trained_runner = 20"
  by (simp_all add: trained_runner_def saved_runner_fields ckpt_dir_def last_recorded_step_def)

lemma trained_encodes:
  "\<exists>j. json_encode (PDict (to_dict (training_config trained_runner))) = Some j"
  using demo_encodes by (simp only: trained_runner_fields demo_runner_fields)

lemma trained_save_done:
  "save_model trained_runner = Done (the_state (save_model trained_runner))"
proof -
  from trained_encodes obtain j where
    "json_encode (PDict (to_dict (training_config trained_runner))) = Some j" by blast
  from save_model_Done[OF this] show ?thesis by auto
qed

text \<open>Witness for C3: on the runner that finds the checkpoints 5 and 10, the explicit step
  7 is not found, and loading without a step restores the parameters of step 10; after
  the trained runner has saved, loading without a step returns.\<close>

theorem load_model_not_found_witness:
  "\<not> checkpoint_available (Some 7) saved_runner \<and>
   load_model (Some 7) saved_runner = Raised FileNotFoundError saved_runner \<and>
   checkpoint_available None saved_runner \<and>
   load_model None saved_runner \<noteq> Raised FileNotFoundError saved_runner \<and>
   checkpoints saved_runner (env_name saved_runner) =
     Some \<lparr>ckpt_steps = [(5, Some 42), (10, Some 43)], dir_files = Map.empty\<rparr> \<and>
   snapshot_readable 10 \<lparr>ckpt_steps = [(5, Some 42), (10, Some (43::nat))],
                          dir_files = (Map.empty :: string \<rightharpoonup> nat content)\<rparr> \<and>
   params (training_state (the_state (load_model None saved_runner))) = Some 43 \<and>
   is_done (load_model None saved_runner) \<and>
   snapshots_readable (ckpt_dir trained_runner) \<and>
   save_model trained_runner = Done (the_state (save_model trained_runner)) \<and>
   is_done (load_model None (the_state (save_model trained_runner)))"
proof -
  let ?d = "\<lparr>ckpt_steps = [(5, Some 42), (10, Some (43::nat))],
             dir_files = (Map.empty :: string \<rightharpoonup> nat content)\<rparr>"
  have na: "\<not> checkpoint_available (Some 7) saved_runner"
    and av: "checkpoint_available None saved_runner"
    and d: "checkpoints saved_runner (env_name saved_runner) = Some ?d"
    by (simp_all add: checkpoint_available_def saved_runner_fields)
  have rd: "snapshot_readable 10 ?d" "snapshots_readable (ckpt_dir trained_runner)"
    by (simp_all add: snapshot_readable_def snapshots_readable_def trained_runner_fields)
  have mx: "Max (set (map fst (ckpt_steps ?d))) = 10" by simp
  note explicit = load_model_not_found[of "Some 7" saved_runner saved_runner ?d
      trained_runner "the_state (save_model trained_runner)"]
  note latest = load_model_not_found[of None saved_runner saved_runner ?d
      trained_runner "the_state (save_model trained_runner)"]
  from explicit na have 1: "load_model (Some 7) saved_runner = Raised FileNotFoundError saved_runner"
    by blast
  from latest av have 2: "load_model None saved_runner \<noteq> Raised FileNotFoundError saved_runner"
    by blast
  from latest d rd(1) mx have 3: "params (training_state (the_state (load_model None saved_runner))) = Some 43"
    and 4: "is_done (load_model None saved_runner)" by auto
  from latest rd(2) trained_save_done
  have 5: "is_done (load_model None (the_state (save_model trained_runner)))" by blast
  from na av d rd 1 2 3 4 5 trained_save_done show ?thesis by blast
qed

text \<open>
  Claim C8. Once \<open>load_model\<close> has restored the parameter blob of the step it works with,
  the parameters in the training state are the restored ones whatever the snapshot
  \<open>config_<step>.json\<close> is. When the snapshot is absent, \<open>load_model\<close> returns and has only
  logged the load; when it is present and holds a JSON document, \<open>load_model\<close> returns in
  the same state except that it has also logged that the configuration was loaded.
\<close>

theorem load_model_snapshot_optional:
  "checkpoints r (env_name r) = Some d \<and> requested_step step d = Some s \<and>
   mgr_restore (ckpt_steps d) s = Inr p \<longrightarrow>
     params (training_state (the_state (load_model step r))) = p \<and>
     (dir_files d (config_step_json s) = None \<longrightarrow>
        load_model step r =
          Done (logger_info (Log_model_loaded s)
                 (r\<lparr>training_state := (training_state r)\<lparr>params := p\<rparr>\<rparr>))) \<and>
     (dir_files d (config_step_json s) = Some (Json_text j) \<longrightarrow>
        load_model step r =
          Done (logger_info (Log_model_loaded s)
                 (logger_info (Log_loaded_configuration (config_step_json s))
                   (r\<lparr>training_state := (training_state r)\<lparr>params := p\<rparr>\<rparr>))))"
proof
  assume "checkpoints r (env_name r) = Some d \<and> requested_step step d = Some s \<and>
    mgr_restore (ckpt_steps d) s = Inr p"
  then have l: "load_model step r = load_step s d r" and m: "mgr_restore (ckpt_steps d) s = Inr p"
    by (simp_all add: load_model_requested)
  from load_step_restored(1,3,4)[OF m] l
  show "params (training_state (the_state (load_model step r))) = p \<and>
     (dir_files d (config_step_json s) = None \<longrightarrow>
        load_model step r =
          Done (logger_info (Log_model_loaded s)
                 (r\<lparr>training_state := (training_state r)\<lparr>params := p\<rparr>\<rparr>))) \<and>
     (dir_files d (config_step_json s) = Some (Json_text j) \<longrightarrow>
        load_model step r =
          Done (logger_info (Log_model_loaded s)
                 (logger_info (Log_loaded_configuration (config_step_json s))
                   (r\<lparr>training_state := (training_state r)\<lparr>params := p\<rparr>\<rparr>))))"
    by simp
qed

text \<open>Witness for C8: the runner that finds the checkpoints 5 and 10 without snapshots
  loads step 5; the runner that has just saved step 20 loads it with its snapshot.\<close>

theorem load_model_snapshot_optional_witness:
  "checkpoints saved_runner (env_name saved_runner) =
     Some \<lparr>ckpt_steps = [(5, Some 42), (10, Some 43)], dir_files = Map.empty\<rparr> \<and>
   requested_step (Some 5) \<lparr>ckpt_steps = [(5, Some 42), (10, Some (43::nat))],
                             dir_files = (Map.empty :: string \<rightharpoonup> nat content)\<rparr> = Some 5 \<and>
   mgr_restore [(5, Some 42), (10, Some (43::nat))] 5 = Inr (Some 42) \<and>
   (Map.empty :: string \<rightharpoonup> nat content) (config_step_json 5) = None \<and>
   params (training_state (the_state (load_model (Some 5) saved_runner))) = Some 42 \<and>
   load_model (Some 5) saved_runner =
     Done (logger_info (Log_model_loaded 5)
            (saved_runner\<lparr>training_state := (training_state saved_runner)\<lparr>params := Some 42\<rparr>\<rparr>)) \<and>
   (\<exists>j. dir_files (ckpt_dir (the_state (save_model trained_runner))) (config_step_json 20) =
           Some (Json_text j) \<and>
        load_model (Some 20) (the_state (save_model trained_runner)) =
          Done (logger_info (Log_model_loaded 20)
                 (logger_info (Log_loaded_configuration (config_step_json 20))
                   ((the_state (save_model trained_runner))
                      \<lparr>training_state := (training_state (the_state (save_model trained_runner)))
                         \<lparr>params := Some 7\<rparr>\<rparr>))))"
proof -
  let ?d = "\<lparr>ckpt_steps = [(5, Some 42), (10, Some (43::nat))],
             dir_files = (Map.empty :: string \<rightharpoonup> nat content)\<rparr>"
  have d: "checkpoints saved_runner (env_name saved_runner) = Some ?d"
    and rq: "requested_step (Some 5) ?d = Some 5"
    and m: "mgr_restore [(5, Some 42), (10, Some (43::nat))] 5 = Inr (Some 42)"
    by (simp_all add: saved_runner_fields requested_step_def mgr_restore_def)
  from load_model_snapshot_optional[of saved_runner ?d "Some 5" 5 "Some 42"] d rq m
  have absent: "params (training_state (the_state (load_model (Some 5) saved_runner))) = Some 42"
    "load_model (Some 5) saved_runner =
     Done (logger_info (Log_model_loaded 5)
            (saved_runner\<lparr>training_state := (training_state saved_runner)\<lparr>params := Some 42\<rparr>\<rparr>))"
    by simp_all
  let ?r = "the_state (save_model trained_runner)"
  from trained_encodes obtain j where
    enc: "json_encode (PDict (to_dict (training_config trained_runner))) = Some j" by blast
  from save_model_Done[OF enc] have
    name: "env_name ?r = env_name trained_runner" and
    ck: "checkpoints ?r = (checkpoints trained_runner)(env_name trained_runner \<mapsto> ckpt_dir ?r)" and
    steps: "ckpt_steps (ckpt_dir ?r) = mgr_save 5 20 (Some 7) [(5, Some 42), (10, Some 43)]" and
    files: "dir_files (ckpt_dir ?r) = (Map.empty)(config_step_json 20 \<mapsto> Json_text j)"
    by (auto simp: trained_runner_fields)
  from name ck have d2: "checkpoints ?r (env_name ?r) = Some (ckpt_dir ?r)" by simp
  have rq2: "requested_step (Some 20) (ckpt_dir ?r) = Some 20" by (simp add: requested_step_def)
  have m2: "mgr_restore (ckpt_steps (ckpt_dir ?r)) 20 = Inr (Some 7)"
    by (simp add: steps mgr_restore_Inr mgr_save_top)
  from files have f2: "dir_files (ckpt_dir ?r) (config_step_json 20) = Some (Json_text j)" by simp
  from load_model_snapshot_optional[of ?r "ckpt_dir ?r" "Some 20" 20 "Some 7" j] d2 rq2 m2 f2
  have present: "load_model (Some 20) ?r =
          Done (logger_info (Log_model_loaded 20)
                 (logger_info (Log_loaded_configuration (config_step_json 20))
                   (?r\<lparr>training_state := (training_state ?r)\<lparr>params := Some 7\<rparr>\<rparr>)))"
    by simp
  from d rq m absent f2 present show ?thesis by simp
qed

lemma mgr_retain_evicts_lowest:
  assumes s: "s \<in> set (map fst store)" and out: "s \<notin> set (map fst (mgr_retain n store))"
    and t: "t \<in> set (map fst (mgr_retain n store))"
  shows "s < t"
proof -
  let ?xs = "rev (sort (remdups (map fst store)))"
  have desc: "sorted_wrt (\<lambda>a b. b \<le> a) ?xs"
    by (simp add: sorted_wrt_rev)
  have dist: "distinct ?xs" by simp
  from t have t_in: "t \<in> set (take n ?xs)" by (simp only: mgr_retain_steps)
  from out have "s \<notin> set (take n ?xs)" by (simp only: mgr_retain_steps) simp
  moreover from s have "s \<in> set ?xs" by simp
  ultimately have s_in: "s \<in> set (drop n ?xs)"
    by (metis Un_iff append_take_drop_id set_append)
  from desc have "sorted_wrt (\<lambda>a b. b \<le> a) (take n ?xs @ drop n ?xs)" by simp
  with t_in s_in have "s \<le> t" by (auto simp only: sorted_wrt_append)
  moreover from dist have "distinct (take n ?xs @ drop n ?xs)" by simp
  with t_in s_in have "s \<noteq> t" by (auto simp only: distinct_append)
  ultimately show ?thesis by simp
qed

lemma mgr_retain_keeps:
  assumes s: "s \<in> set (map fst store)"
    and few: "length (filter (\<lambda>t. s < t) (remdups (map fst store))) < n"
  shows "s \<in> set (map fst (mgr_retain n store))"
proof (rule ccontr)
  assume out: "s \<notin> set (map fst (mgr_retain n store))"
  let ?xs = "rev (sort (remdups (map fst store)))"
  let ?above = "filter (\<lambda>t. s < t) (remdups (map fst store))"
  from out have "s \<notin> set (take n ?xs)" by (simp only: mgr_retain_steps) simp
  moreover from s have "s \<in> set ?xs" by simp
  ultimately have "s \<in> set (drop n ?xs)"
    by (metis Un_iff append_take_drop_id set_append)
  then have "n < length ?xs" by (cases "n < length ?xs") simp_all
  then have len: "length (take n ?xs) = n" by simp
  have "distinct (take n ?xs)" by simp
  then have "card (set (take n ?xs)) = n" using len by (simp only: distinct_card)
  moreover have "set (take n ?xs) \<subseteq> set ?above"
  proof
    fix t assume "t \<in> set (take n ?xs)"
    then have t: "t \<in> set (map fst (mgr_retain n store))" by (simp only: mgr_retain_steps)
    from mgr_retain_evicts_lowest[OF s out t] have "s < t" .
    moreover from t mgr_retain_subset have "t \<in> set (map fst store)" by blast
    ultimately show "t \<in> set ?above" by simp
  qed
  then have "card (set (take n ?xs)) \<le> card (set ?above)" by (intro card_mono) simp_all
  moreover have "card (set ?above) \<le> length ?above" by (rule card_length)
  ultimately show False using few by simp
qed

lemma mgr_save_present:
  assumes "length (filter (\<lambda>t. step < t) (remdups (map fst store))) < n"
  shows "map_of (mgr_save n step p store) step = Some p"
proof -
  let ?st = "AList.update step p store"
  have keys: "set (map fst ?st) = insert step (set (map fst store))"
    using dom_update[of step p store] by simp
  let ?new = "filter (\<lambda>t. step < t) (remdups (map fst ?st))"
  let ?old = "filter (\<lambda>t. step < t) (remdups (map fst store))"
  have "set ?new = set ?old" using keys by auto
  moreover have "length ?new = card (set ?new)" by (rule distinct_card[symmetric]) simp
  moreover have "length ?old = card (set ?old)" by (rule distinct_card[symmetric]) simp
  ultimately have "length ?new = length ?old" by (simp only:)
  with assms have few: "length (filter (\<lambda>t. step < t) (remdups (map fst ?st))) < n" by simp
  have "step \<in> set (map fst ?st)" using keys by simp
  from mgr_retain_keeps[OF this few]
  have "step \<in> set (take n (rev (sort (remdups (map fst ?st)))))"
    by (simp only: mgr_retain_steps)
  then show ?thesis by (simp add: mgr_save_def mgr_retain_map_of update_conv')
qed

lemma to_dict_json:
  assumes "network_factory c = PConfig kvs"
  shows "\<exists>nf. json_encode (ConfigDict_to_dict (network_factory c)) = Some nf \<and>
              json_encode (PDict (to_dict c)) = Some (hyperparameters_json c nf)"
proof -
  obtain nf where nf: "json_encode (PDict (cfg_to_dict kvs)) = Some nf"
    using json_encode_cfg_to_dict by blast
  then have enc: "json_encode (PDict (to_dict c)) = Some (hyperparameters_json c nf)"
    using assms by (auto simp: to_dict_def asdict_def Let_def hyperparameters_json_def)
  have "ConfigDict_to_dict (network_factory c) = PDict (cfg_to_dict kvs)"
    using assms by simp
  with nf enc show ?thesis by (intro exI[of _ nf]) (simp del: json_encode.simps)
qed

lemma debug_network_factory_json:
  "json_encode (ConfigDict_to_dict default_network_factory) = Some nf \<Longrightarrow>
    hyperparameters_json (create_training_config True ep) nf = debug_config_json"
  by (auto simp: default_network_factory_def cfg_to_dict_def hyperparameters_json_def
      debug_config_json_def create_training_config_def)

lemma loaded_runner_fields:
  "env_name loaded_runner = ''zbot''"
  "training_config loaded_runner = create_training_config True 1000"
  "x_data (training_state loaded_runner) = []"
  "params (training_state loaded_runner) = Some 42"
  "ckpt_dir loaded_runner = \<lparr>ckpt_steps = [(5, Some 42), (10, Some 43)], dir_files = Map.empty\<rparr>"
  "last_recorded_step loaded_runner = 0"
  by (simp_all add: loaded_runner_def saved_runner_fields ckpt_dir_def last_recorded_step_def
      demo_runner_def init_runner_training_state)

lemma file_names: "str_int 20 = ''20''" "str_int 0 = ''0''"
  by (simp_all add: str_int_def str_nat.simps)

section \<open>Checkpoint Store: save\<close>

text \<open>
  Claim C4. \<open>save_model\<close> saves under the last recorded step, the final entry of \<open>x_data\<close>, or
  under step 0 when \<open>x_data\<close> is empty. For a configuration whose \<open>network_factory\<close> is a
  ConfigDict it returns, and then the directory \<open>checkpoints/<env_name>\<close> exists; its
  checkpoints are those the manager keeps after saving the parameters of the training state
  under that step with at most 5 checkpoints to keep; the file whose name is \<open>config_\<close>, the
  decimal form of that same step and \<open>.json\<close> holds the JSON object of the full
  hyperparameter mapping, every declared field with its value and the network-shape
  sub-configuration in its JSON form; at most 5 checkpoints are in the directory, and every
  checkpoint that was evicted has a lower step than every checkpoint kept; and when fewer
  than 5 checkpoints with a higher step were in the directory, in particular when there
  was none, the checkpoint of that step is there and holds the parameters of the training
  state.
\<close>

theorem save_model_writes:
  "last_recorded_step r =
     (if x_data (training_state r) \<noteq> [] then last (x_data (training_state r)) else 0) \<and>
   (is_ConfigDict (network_factory (training_config r)) \<longrightarrow>
     (\<exists>r' nf. save_model r = Done r' \<and>
        json_encode (ConfigDict_to_dict (network_factory (training_config r))) = Some nf \<and>
        json_encode (PDict (to_dict (training_config r))) =
          Some (hyperparameters_json (training_config r) nf) \<and>
        dict_keys (json_decode (hyperparameters_json (training_config r) nf)) = declared_fields \<and>
        checkpoints r' (env_name r) = Some (ckpt_dir r') \<and>
        ckpt_steps (ckpt_dir r') =
          mgr_save 5 (last_recorded_step r) (params (training_state r)) (ckpt_steps (ckpt_dir r)) \<and>
        dir_files (ckpt_dir r') (''config_'' @ str_int (last_recorded_step r) @ ''.json'') =
          Some (Json_text (hyperparameters_json (training_config r) nf)) \<and>
        length (remdups (map fst (ckpt_steps (ckpt_dir r')))) \<le> 5 \<and>
        (\<forall>s\<in>insert (last_recorded_step r) (set (map fst (ckpt_steps (ckpt_dir r)))).
           s \<notin> set (map fst (ckpt_steps (ckpt_dir r'))) \<longrightarrow>
           (\<forall>t\<in>set (map fst (ckpt_steps (ckpt_dir r'))). s < t)) \<and>
        ((\<forall>s\<in>set (map fst (ckpt_steps (ckpt_dir r))). s \<le> last_recorded_step r) \<longrightarrow>
           map_of (ckpt_steps (ckpt_dir r')) (last_recorded_step r) =
             Some (params (training_state r))) \<and>
        (length (filter (\<lambda>s. last_recorded_step r < s)
                   (remdups (map fst (ckpt_steps (ckpt_dir r))))) < 5 \<longrightarrow>
           map_of (ckpt_steps (ckpt_dir r')) (last_recorded_step r) =
             Some (params (training_state r)))))"
proof (intro conjI impI)
  show "last_recorded_step r =
     (if x_data (training_state r) \<noteq> [] then last (x_data (training_state r)) else 0)"
    by (simp add: last_recorded_step_def)
next
  assume nfc: "is_ConfigDict (network_factory (training_config r))"
  let ?step = "last_recorded_step r" and ?p = "params (training_state r)"
    and ?old = "ckpt_steps (ckpt_dir r)" and ?tc = "training_config r"
  from nfc obtain kvs where "network_factory ?tc = PConfig kvs"
    by (cases "network_factory ?tc") auto
  from to_dict_json[OF this] obtain nf where
    nf: "json_encode (ConfigDict_to_dict (network_factory ?tc)) = Some nf" and
    enc: "json_encode (PDict (to_dict ?tc)) = Some (hyperparameters_json ?tc nf)" by blast
  from json_roundtrip_keys[OF enc]
  have keys: "dict_keys (json_decode (hyperparameters_json ?tc nf)) = declared_fields"
    by (simp add: to_dict_keys)
  from save_model_Done[OF enc] obtain r' where
    saved: "save_model r = Done r'" and
    ck: "checkpoints r' = (checkpoints r)(env_name r \<mapsto> ckpt_dir r')" and
    steps: "ckpt_steps (ckpt_dir r') = mgr_save 5 ?step ?p ?old" and
    files: "dir_files (ckpt_dir r') =
      (dir_files (ckpt_dir r))(config_step_json ?step \<mapsto> Json_text (hyperparameters_json ?tc nf))"
    by blast
  from files have written:
    "dir_files (ckpt_dir r') (''config_'' @ str_int ?step @ ''.json'') =
      Some (Json_text (hyperparameters_json ?tc nf))"
    by (simp add: config_step_json_def)
  have bound: "length (remdups (map fst (ckpt_steps (ckpt_dir r')))) \<le> 5"
    by (simp only: steps mgr_save_def mgr_retain_length)
  have before: "set (map fst (AList.update ?step ?p ?old)) = insert ?step (set (map fst ?old))"
    using dom_update[of ?step ?p ?old] by simp
  have evict: "\<forall>s\<in>insert ?step (set (map fst ?old)).
         s \<notin> set (map fst (ckpt_steps (ckpt_dir r'))) \<longrightarrow>
         (\<forall>t\<in>set (map fst (ckpt_steps (ckpt_dir r'))). s < t)"
    unfolding steps mgr_save_def before[symmetric]
    using mgr_retain_evicts_lowest[of _ "AList.update ?step ?p ?old" 5] by blast
  have top: "(\<forall>s\<in>set (map fst ?old). s \<le> ?step) \<longrightarrow>
         map_of (ckpt_steps (ckpt_dir r')) ?step = Some ?p"
    by (simp add: steps mgr_save_top)
  have few: "length (filter (\<lambda>s. ?step < s) (remdups (map fst ?old))) < 5 \<longrightarrow>
         map_of (ckpt_steps (ckpt_dir r')) ?step = Some ?p"
    by (simp add: steps mgr_save_present)
  from saved nf enc keys ck steps written bound evict top few
  show "\<exists>r' nf. save_model r = Done r' \<and>
        json_encode (ConfigDict_to_dict (network_factory ?tc)) = Some nf \<and>
        json_encode (PDict (to_dict ?tc)) = Some (hyperparameters_json ?tc nf) \<and>
        dict_keys (json_decode (hyperparameters_json ?tc nf)) = declared_fields \<and>
        checkpoints r' (env_name r) = Some (ckpt_dir r') \<and>
        ckpt_steps (ckpt_dir r') = mgr_save 5 ?step ?p ?old \<and>
        dir_files (ckpt_dir r') (''config_'' @ str_int ?step @ ''.json'') =
          Some (Json_text (hyperparameters_json ?tc nf)) \<and>
        length (remdups (map fst (ckpt_steps (ckpt_dir r')))) \<le> 5 \<and>
        (\<forall>s\<in>insert ?step (set (map fst ?old)).
           s \<notin> set (map fst (ckpt_steps (ckpt_dir r'))) \<longrightarrow>
           (\<forall>t\<in>set (map fst (ckpt_steps (ckpt_dir r'))). s < t)) \<and>
        ((\<forall>s\<in>set (map fst ?old). s \<le> ?step) \<longrightarrow>
           map_of (ckpt_steps (ckpt_dir r')) ?step = Some ?p) \<and>
        (length (filter (\<lambda>s. ?step < s) (remdups (map fst ?old))) < 5 \<longrightarrow>
           map_of (ckpt_steps (ckpt_dir r')) ?step = Some ?p)"
    by auto
qed

text \<open>Witness for C4: the trained runner, whose last recorded step 20 is above the
  checkpoints 5 and 10 it finds, saves its parameters under step 20 and writes
  \<open>config_20.json\<close>; the runner that has loaded parameters and recorded no step saves them
  under step 0, below the two checkpoints it finds, and writes \<open>config_0.json\<close>. Both files
  hold the hyperparameters of debug mode.\<close>

theorem save_model_writes_witness:
  "is_ConfigDict (network_factory (training_config trained_runner)) \<and>
   x_data (training_state trained_runner) = [0, 20] \<and>
   params (training_state trained_runner) = Some 7 \<and>
   ckpt_steps (ckpt_dir trained_runner) = [(5, Some 42), (10, Some 43)] \<and>
   (\<exists>r'. save_model trained_runner = Done r' \<and>
      checkpoints r' ''zbot'' = Some (ckpt_dir r') \<and>
      ckpt_steps (ckpt_dir r') = [(5, Some 42), (10, Some 43), (20, Some 7)] \<and>
      dir_files (ckpt_dir r') ''config_20.json'' = Some (Json_text debug_config_json) \<and>
      map_of (ckpt_steps (ckpt_dir r')) 20 = Some (Some 7)) \<and>
   is_ConfigDict (network_factory (training_config loaded_runner)) \<and>
   x_data (training_state loaded_runner) = [] \<and>
   params (training_state loaded_runner) = Some 42 \<and>
   ckpt_steps (ckpt_dir loaded_runner) = [(5, Some 42), (10, Some 43)] \<and>
   (\<exists>r'. save_model loaded_runner = Done r' \<and>
      checkpoints r' ''zbot'' = Some (ckpt_dir r') \<and>
      ckpt_steps (ckpt_dir r') = [(5, Some 42), (10, Some 43), (0, Some 42)] \<and>
      dir_files (ckpt_dir r') ''config_0.json'' = Some (Json_text debug_config_json) \<and>
      map_of (ckpt_steps (ckpt_dir r')) 0 = Some (Some 42))"
proof -
  have nf: "is_ConfigDict (network_factory (training_config trained_runner))"
    "is_ConfigDict (network_factory (training_config loaded_runner))"
    by (simp_all add: trained_runner_fields loaded_runner_fields create_training_config_def
        default_network_factory_def)
  have nfd: "network_factory (create_training_config True 1000) = default_network_factory"
    by (simp add: create_training_config_def)
  have store: "mgr_save 5 20 (Some 7) [(5, Some 42), (10, Some (43::nat))] =
      [(5, Some 42), (10, Some 43), (20, Some 7)]"
    "mgr_save 5 0 (Some 42) [(5, Some 42), (10, Some (43::nat))] =
      [(5, Some 42), (10, Some 43), (0, Some 42)]"
    by (simp_all add: mgr_save_def mgr_retain_def)
  from save_model_writes[of trained_runner] nf(1)
  have trained: "\<exists>r'. save_model trained_runner = Done r' \<and>
      checkpoints r' ''zbot'' = Some (ckpt_dir r') \<and>
      ckpt_steps (ckpt_dir r') = [(5, Some 42), (10, Some 43), (20, Some 7)] \<and>
      dir_files (ckpt_dir r') ''config_20.json'' = Some (Json_text debug_config_json) \<and>
      map_of (ckpt_steps (ckpt_dir r')) 20 = Some (Some 7)"
    by (simp only: trained_runner_fields nfd file_names)
       (auto simp: debug_network_factory_json store)
  from save_model_writes[of loaded_runner] nf(2)
  have loaded: "\<exists>r'. save_model loaded_runner = Done r' \<and>
      checkpoints r' ''zbot'' = Some (ckpt_dir r') \<and>
      ckpt_steps (ckpt_dir r') = [(5, Some 42), (10, Some 43), (0, Some 42)] \<and>
      dir_files (ckpt_dir r') ''config_0.json'' = Some (Json_text debug_config_json) \<and>
      map_of (ckpt_steps (ckpt_dir r')) 0 = Some (Some 42)"
    by (simp only: loaded_runner_fields nfd file_names)
       (auto simp: debug_network_factory_json store)
  from nf trained loaded show ?thesis
    by (simp add: trained_runner_fields loaded_runner_fields)
qed

section \<open>Checkpoint Store: the file config.json\<close>

text \<open>
  Claim C5, as stated, fails: the trained runner, which holds trained parameters and finds
  a directory \<open>checkpoints/<env_name>\<close> without a file \<open>config.json\<close>, saves its model, and
  afterwards there is still no file \<open>config.json\<close> in that directory.
\<close>

theorem save_model_config_json_counterexample:
  "params (training_state trained_runner) = Some 7 \<and>
   is_done (save_model trained_runner) \<and>
   dir_files (ckpt_dir (the_state (save_model trained_runner))) ''config.json'' = None"
proof -
  have "is_done (save_model trained_runner)"
    using trained_save_done by (metis is_done.simps(1))
  moreover have "dir_files (ckpt_dir (the_state (save_model trained_runner))) ''config.json'' =
      dir_files (ckpt_dir trained_runner) ''config.json''"
    by (rule save_model_other_files) (simp add: config_step_json_neq [symmetric])
  ultimately show ?thesis by (simp add: trained_runner_fields)
qed

text \<open>
  Claim C5, amended. A save of a trained model writes the per-step file, whose name is
  \<open>config_\<close>, the decimal form of the step and \<open>.json\<close>, with the JSON object of the
  hyperparameters, and leaves the file \<open>config.json\<close> of \<open>checkpoints/<env_name>\<close> as it was,
  absent if it was absent. The file \<open>config.json\<close> is written by \<open>_save_rl_config_dict\<close>, which
  \<open>save_model\<close> does not call: that operation leaves \<open>config.json\<close> holding the JSON object of
  the current hyperparameters, whatever the file held before.
\<close>

theorem save_model_config_json:
  "dir_files (ckpt_dir (the_state (save_model r))) ''config.json'' =
     dir_files (ckpt_dir r) ''config.json'' \<and>
   (is_ConfigDict (network_factory (training_config r)) \<longrightarrow>
     (\<exists>nf. json_encode (ConfigDict_to_dict (network_factory (training_config r))) = Some nf \<and>
        json_encode (PDict (to_dict (training_config r))) =
          Some (hyperparameters_json (training_config r) nf) \<and>
        is_done (save_model r) \<and>
        dir_files (ckpt_dir (the_state (save_model r)))
          (''config_'' @ str_int (last_recorded_step r) @ ''.json'') =
          Some (Json_text (hyperparameters_json (training_config r) nf)) \<and>
        is_done (save_rl_config_dict path r) \<and>
        dir_files (ckpt_dir (the_state (save_rl_config_dict path r))) ''config.json'' =
          Some (Json_text (hyperparameters_json (training_config r) nf))))"
proof (intro conjI impI)
  show "dir_files (ckpt_dir (the_state (save_model r))) ''config.json'' =
     dir_files (ckpt_dir r) ''config.json''"
    by (rule save_model_other_files) (simp add: config_step_json_neq [symmetric])
next
  assume nfc: "is_ConfigDict (network_factory (training_config r))"
  let ?tc = "training_config r"
  from nfc obtain kvs where "network_factory ?tc = PConfig kvs"
    by (cases "network_factory ?tc") auto
  from to_dict_json[OF this] obtain nf where
    nf: "json_encode (ConfigDict_to_dict (network_factory ?tc)) = Some nf" and
    enc: "json_encode (PDict (to_dict ?tc)) = Some (hyperparameters_json ?tc nf)" by blast
  from save_model_Done[OF enc] save_rl_config_dict_Done[OF enc, of path] nf enc
  show "\<exists>nf. json_encode (ConfigDict_to_dict (network_factory ?tc)) = Some nf \<and>
        json_encode (PDict (to_dict ?tc)) = Some (hyperparameters_json ?tc nf) \<and>
        is_done (save_model r) \<and>
        dir_files (ckpt_dir (the_state (save_model r)))
          (''config_'' @ str_int (last_recorded_step r) @ ''.json'') =
          Some (Json_text (hyperparameters_json ?tc nf)) \<and>
        is_done (save_rl_config_dict path r) \<and>
        dir_files (ckpt_dir (the_state (save_rl_config_dict path r))) ''config.json'' =
          Some (Json_text (hyperparameters_json ?tc nf))"
    by (auto simp: config_step_json_def)
qed

text \<open>Witness for C5: after the trained runner has saved, \<open>config_20.json\<close> is there with
  the hyperparameters of debug mode and \<open>config.json\<close> is not; after
  \<open>_save_rl_config_dict\<close>, \<open>config.json\<close> is there with the same content.\<close>

theorem save_model_config_json_witness:
  "is_ConfigDict (network_factory (training_config trained_runner)) \<and>
   params (training_state trained_runner) = Some 7 \<and>
   is_done (save_model trained_runner) \<and>
   dir_files (ckpt_dir (the_state (save_model trained_runner))) ''config.json'' = None \<and>
   dir_files (ckpt_dir (the_state (save_model trained_runner))) ''config_20.json'' =
     Some (Json_text debug_config_json) \<and>
   is_done (save_rl_config_dict ''unused'' trained_runner) \<and>
   dir_files (ckpt_dir (the_state (save_rl_config_dict ''unused'' trained_runner)))
     ''config.json'' = Some (Json_text debug_config_json)"
proof -
  have nf: "is_ConfigDict (network_factory (training_config trained_runner))"
    by (simp add: trained_runner_fields create_training_config_def default_network_factory_def)
  have nfd: "network_factory (create_training_config True 1000) = default_network_factory"
    by (simp add: create_training_config_def)
  have absent: "dir_files (ckpt_dir trained_runner) ''config.json'' = None"
    by (simp add: trained_runner_fields)
  from save_model_config_json[of trained_runner "''unused''"] nf
  have "is_done (save_model trained_runner) \<and>
   dir_files (ckpt_dir (the_state (save_model trained_runner))) ''config.json'' = None \<and>
   dir_files (ckpt_dir (the_state (save_model trained_runner))) ''config_20.json'' =
     Some (Json_text debug_config_json) \<and>
   is_done (save_rl_config_dict ''unused'' trained_runner) \<and>
   dir_files (ckpt_dir (the_state (save_rl_config_dict ''unused'' trained_runner)))
     ''config.json'' = Some (Json_text debug_config_json)"
    by (simp only: absent trained_runner_fields(2,6) nfd file_names)
       (auto simp: debug_network_factory_json)
  with nf show ?thesis by (simp add: trained_runner_fields)
qed

section \<open>Training Orchestrator: the time-to-compile log\<close>

lemma progress_callback_keeps:
  "progress_callback now n m r = Done r' \<Longrightarrow>
    training_config r' = training_config r \<and> args_save_model r' = args_save_model r \<and>
    env_name r' = env_name r \<and> env_config_episode_length r' = env_config_episode_length r"
  by (auto simp: progress_callback_def Let_def split: option.splits)

lemma run_callbacks_keeps:
  "run_callbacks ticks r = Done r' \<Longrightarrow>
    training_config r' = training_config r \<and> args_save_model r' = args_save_model r \<and>
    env_name r' = env_name r \<and> env_config_episode_length r' = env_config_episode_length r"
proof (induction ticks arbitrary: r)
  case Nil
  then show ?case by simp
next
  case (Cons tick ticks)
  obtain now n m where tick: "tick = (now, n, m)" by (cases tick)
  from Cons.prems tick obtain r1 where
    first: "progress_callback now n m r = Done r1" and rest: "run_callbacks ticks r1 = Done r'"
    by (auto split: result.splits)
  from progress_callback_keeps[OF first] Cons.IH[OF rest] show ?case by simp
qed

lemma train_returns:
  assumes run: "run_callbacks ticks r = Done r1"
    and two: "1 < length (times_seq (training_state r1))"
    and enc: "json_encode (PDict (to_dict (training_config r))) = Some j"
  shows "\<exists>r'. train ticks (Inr trained) r = Done r'"
proof (cases "args_save_model r1")
  case False
  with run two show ?thesis by (simp add: train_def Let_def)
next
  case True
  let ?ts = "times_seq (training_state r1)"
  let ?r3 = "logger_info (Log_time_to_train (last ?ts - ?ts ! 1))
               (logger_info (Log_time_to_jit (?ts ! 1 - ?ts ! 0)) r1)"
  let ?r4 = "?r3\<lparr>training_state := (training_state ?r3)\<lparr>params := Some trained\<rparr>\<rparr>"
  from run_callbacks_keeps[OF run] enc
  have "json_encode (PDict (to_dict (training_config ?r4))) = Some j" by simp
  from save_model_Done[OF this] obtain r' where "save_model ?r4 = Done r'" by blast
  with run two True show ?thesis by (simp add: train_def Let_def)
qed

text \<open>
  Claim C9. After the training call has returned, \<open>train\<close> reads \<open>times[1]\<close>. When \<open>times\<close>
  holds only its construction-time entry and the trainer fires no progress tick, \<open>train\<close>
  raises an out-of-bounds indexing error instead of returning, in a state that is the one
  it started in; this is so for the runner as built. Hence \<open>train\<close> on the runner as built
  returns normally only if the trainer fired at least one tick.
\<close>

theorem train_needs_a_tick:
  "(length (times_seq (training_state r)) = 1 \<longrightarrow>
      train [] (Inr trained) r = Raised IndexError r) \<and>
   train [] (Inr trained) (init_runner name dbg sv ep now lg cwd ck) =
      Raised IndexError (init_runner name dbg sv ep now lg cwd ck) \<and>
   (train ticks outcome (init_runner name dbg sv ep now lg cwd ck) = Done r' \<longrightarrow> ticks \<noteq> [])"
  by (auto simp: train_def init_runner_def get_rl_config_dict_def Let_def logger_info_def
      split: sum.splits)

text \<open>Witness for C9: the runner as built has one timestamp and \<open>train\<close> without ticks
  raises; with the two ticks of the demo run it returns.\<close>

theorem train_needs_a_tick_witness:
  "length (times_seq (training_state demo_runner)) = 1 \<and>
   train [] (Inr 42) demo_runner = Raised IndexError demo_runner \<and>
   train demo_ticks (Inr 42) demo_runner = Done (the_state (train demo_ticks (Inr 42) demo_runner)) \<and>
   demo_ticks \<noteq> []"
proof -
  have one: "length (times_seq (training_state demo_runner)) = 1"
    by (simp add: demo_runner_def init_runner_training_state)
  from run_callbacks_lengths[OF demo_ticks_done] one
  have two: "1 < length (times_seq (training_state (the_state (run_callbacks demo_ticks demo_runner))))"
    by (simp add: demo_ticks_def)
  from demo_encodes obtain j where
    enc: "json_encode (PDict (to_dict (training_config demo_runner))) = Some j" by blast
  from train_returns[OF demo_ticks_done two enc, of 42]
  have ret: "train demo_ticks (Inr 42) demo_runner =
      Done (the_state (train demo_ticks (Inr 42) demo_runner))" by auto
  show ?thesis
    using train_needs_a_tick[of demo_runner 42 "''zbot''" True True 1000 0 "[]" Map.empty
        Map.empty demo_ticks "Inr 42" "the_state (train demo_ticks (Inr 42) demo_runner)"]
      one ret
    by (simp add: demo_runner_def [symmetric])
qed

section \<open>Evaluator/Renderer\<close>

lemma episode_rewards_append:
  "episode_rewards (evs @ evs') = episode_rewards evs @ episode_rewards evs'"
  by (induction evs rule: episode_rewards.induct) simp_all

lemma run_episode_lengths:
  "length (fst (run_episode env split inference_fn n state rng rollout fns)) = length rollout + n \<and>
   length (snd (run_episode env split inference_fn n state rng rollout fns)) = length fns + n"
  by (induction n arbitrary: state rng rollout fns) (simp_all add: Let_def split: prod.splits)

lemma run_episode_hd:
  "rollout \<noteq> [] \<Longrightarrow>
    hd (fst (run_episode env split inference_fn n state rng rollout fns)) = hd rollout"
  by (induction n arbitrary: state rng rollout fns) (simp_all add: Let_def split: prod.splits)

lemma run_episode_rewards:
  assumes "\<forall>s c. state_reward env (env_step env s c) = 1"
  shows "sum_list (map (state_reward env)
           (fst (run_episode env split inference_fn n state rng rollout fns))) =
         sum_list (map (state_reward env) rollout) + of_nat n"
  using assms
  by (induction n arbitrary: state rng rollout fns) (simp_all add: Let_def split: prod.splits)

lemma str_nat_0: "str_nat 0 = ''0''"
  by (simp add: str_nat.simps)

lemma render_episode_cases:
  "render_episode eval_env rollout fns episode r =
    (if env_dt eval_env = 0 then Raised ZeroDivisionError r
     else if env_render eval_env rollout fns = []
       then Raised IndexError (logger_info (Log_fps (1 / env_dt eval_env)) r)
     else Done ((logger_info (Log_fps (1 / env_dt eval_env)) r)
            \<lparr>cwd_files := (cwd_files r)(''output_'' @ str_nat episode @ ''.mp4'' \<mapsto>
               Video_mp4 (1 / env_dt eval_env) (env_render eval_env rollout fns))\<rparr>))"
  by (simp add: render_episode_def save_video_def Let_def split: list.splits)

lemma evaluate_episode_unfold:
  "evaluate_episode eval_env video_eval_env lib episode r =
    render_episode eval_env (fst (episode_rollout video_eval_env lib episode r))
      (snd (episode_rollout video_eval_env lib episode r)) episode
      (logger_info (Log_episode_reward episode
         (sum_list (map (state_reward video_eval_env)
            (fst (episode_rollout video_eval_env lib episode r))))) r)"
  by (simp add: evaluate_episode_def episode_rollout_def Let_def split: prod.splits)

lemma evaluate_episode_rewards:
  "episode_rewards (logger (the_state (evaluate_episode eval_env video_eval_env lib episode r))) =
    episode_rewards (logger r) @
      [(episode, sum_list (map (state_reward video_eval_env)
                   (fst (episode_rollout video_eval_env lib episode r))))]"
  by (simp add: evaluate_episode_unfold render_episode_cases episode_rewards_append)

lemma evaluate_one_episode:
  assumes "num_resets_per_eval (training_config r) = 1"
    and "map_of (rl_config (training_state r)) ''network_factory'' = Some nf"
  shows "evaluate eval_env video_eval_env lib r =
    (case evaluate_episode eval_env video_eval_env lib 0 r of
       Raised e r' \<Rightarrow> Raised e r' | Done r' \<Rightarrow> Done r')"
proof -
  have "[0 ..< nat 1] = [0]" by simp
  with assms show ?thesis by (simp add: evaluate_def split: result.splits)
qed

lemma evaluate_stub_like:
  assumes ones: "\<forall>s c. state_reward video_eval_env (env_step video_eval_env s c) = 1"
    and len: "env_config_episode_length r = 4"
    and one: "num_resets_per_eval (training_config r) = 1"
    and nf: "map_of (rl_config (training_state r)) ''network_factory'' = Some nf"
  shows "episode_rewards (logger (the_state (evaluate eval_env video_eval_env lib r))) =
      episode_rewards (logger r) @
        [(0, state_reward video_eval_env (env_reset video_eval_env (random_PRNGKey lib 0)) + 4)]"
    and "length (fst (episode_rollout video_eval_env lib 0 r)) = 5"
    and "env_dt eval_env \<noteq> 0 \<Longrightarrow>
         env_render eval_env (fst (episode_rollout video_eval_env lib 0 r))
           (snd (episode_rollout video_eval_env lib 0 r)) \<noteq> [] \<Longrightarrow>
         is_done (evaluate eval_env video_eval_env lib r) \<and>
         cwd_files (the_state (evaluate eval_env video_eval_env lib r)) =
           (cwd_files r)(''output_0.mp4'' \<mapsto> Video_mp4 (1 / env_dt eval_env)
              (env_render eval_env (fst (episode_rollout video_eval_env lib 0 r))
                 (snd (episode_rollout video_eval_env lib 0 r))))"
proof -
  have same: "the_state (evaluate eval_env video_eval_env lib r) =
      the_state (evaluate_episode eval_env video_eval_env lib 0 r)"
    by (simp add: evaluate_one_episode[OF one nf] split: result.splits)
  have total: "sum_list (map (state_reward video_eval_env)
      (fst (episode_rollout video_eval_env lib 0 r))) =
      state_reward video_eval_env (env_reset video_eval_env (random_PRNGKey lib 0)) + 4"
    using run_episode_rewards[OF ones] len by (simp add: episode_rollout_def)
  show "episode_rewards (logger (the_state (evaluate eval_env video_eval_env lib r))) =
      episode_rewards (logger r) @
        [(0, state_reward video_eval_env (env_reset video_eval_env (random_PRNGKey lib 0)) + 4)]"
    by (simp only: same evaluate_episode_rewards total)
  show "length (fst (episode_rollout video_eval_env lib 0 r)) = 5"
    using len by (simp add: episode_rollout_def run_episode_lengths)
  show "is_done (evaluate eval_env video_eval_env lib r) \<and>
         cwd_files (the_state (evaluate eval_env video_eval_env lib r)) =
           (cwd_files r)(''output_0.mp4'' \<mapsto> Video_mp4 (1 / env_dt eval_env)
              (env_render eval_env (fst (episode_rollout video_eval_env lib 0 r))
                 (snd (episode_rollout video_eval_env lib 0 r))))"
    if "env_dt eval_env \<noteq> 0"
      "env_render eval_env (fst (episode_rollout video_eval_env lib 0 r))
           (snd (episode_rollout video_eval_env lib 0 r)) \<noteq> []"
    using that
    by (simp add: evaluate_one_episode[OF one nf] evaluate_episode_unfold render_episode_cases
        str_nat_0)
qed

lemma stub_facts:
  "\<forall>s c. state_reward stub_env (env_step stub_env s c) = 1"
  "env_config_episode_length stub_runner = 4"
  "num_resets_per_eval (training_config stub_runner) = 1"
  "logger stub_runner = [Log_rl_config (to_dict (create_training_config False 4))]"
  "cwd_files stub_runner = Map.empty"
  "env_dt stub_env \<noteq> 0"
  "state_reward stub_env (env_reset stub_env (random_PRNGKey stub_lib 0)) = 1"
  by (simp_all add: stub_env_def stub_lib_def stub_runner_def init_runner_def
      get_rl_config_dict_def Let_def logger_info_def create_training_config_def)

lemma stub_network_factory:
  "map_of (rl_config (training_state stub_runner)) ''network_factory'' =
    Some (ConfigDict_to_dict default_network_factory)"
  by (simp add: stub_runner_def init_runner_training_state to_dict_def asdict_def Let_def
      create_training_config_def default_network_factory_def)

lemma stub_rollout: "episode_rollout stub_env stub_lib 0 stub_runner = ([0, 1, 2, 3, 4], [(), (), (), (), ()])"
proof -
  have "nat (env_config_episode_length stub_runner) = Suc (Suc (Suc (Suc 0)))"
    by (simp add: stub_facts)
  then show ?thesis
    by (simp add: episode_rollout_def stub_env_def stub_lib_def Let_def)
qed

text \<open>
  Claim C7, as stated, fails: on the stub environment, whose step function always returns
  reward 1 and whose reset state carries reward 1 too, with \<open>episode_length = 4\<close>, the total
  reported for episode 0 is 5, not 4.
\<close>

theorem evaluate_reward_counterexample:
  "env_config_episode_length stub_runner = 4 \<and>
   state_reward stub_env (env_step stub_env 0 ()) = 1 \<and>
   episode_rewards (logger (the_state (evaluate stub_env stub_env stub_lib stub_runner))) = [(0, 5)]"
  using evaluate_stub_like(1)[OF stub_facts(1,2,3) stub_network_factory, of stub_env stub_lib]
  by (simp add: stub_facts)

text \<open>
  Claim C7, amended. For every evaluated episode, \<open>evaluate\<close> sums the rewards of the states
  of the accumulated rollout, which begins with the state returned by reset, and logs the
  total. For an environment whose step function always returns reward 1 and whose
  configured \<open>episode_length\<close> is 4, on a runner with one episode to evaluate and with
  \<open>network_factory\<close> in its \<open>rl_config\<close> (as the runner is built), the rollout has 5 states
  and the total reported for episode 0 is the reward of the reset state plus 4, which is 4
  when the reset state carries reward 0; and when rendering does not fail (the time step is
  not zero and the renderer gives at least one frame), \<open>evaluate\<close> returns and the only
  file written is \<open>output_0.mp4\<close>, holding the rendered frames.
\<close>

theorem evaluate_reward:
  "episode_rewards (logger (the_state (evaluate_episode eval_env video_eval_env lib episode r))) =
     episode_rewards (logger r) @
       [(episode, sum_list (map (state_reward video_eval_env)
                    (fst (episode_rollout video_eval_env lib episode r))))] \<and>
   hd (fst (episode_rollout video_eval_env lib episode r)) =
     env_reset video_eval_env (random_PRNGKey lib episode) \<and>
   ((\<forall>s c. state_reward video_eval_env (env_step video_eval_env s c) = 1) \<and>
    env_config_episode_length r = 4 \<and> num_resets_per_eval (training_config r) = 1 \<and>
    map_of (rl_config (training_state r)) ''network_factory'' = Some nf \<longrightarrow>
      episode_rewards (logger (the_state (evaluate eval_env video_eval_env lib r))) =
        episode_rewards (logger r) @
          [(0, state_reward video_eval_env (env_reset video_eval_env (random_PRNGKey lib 0)) + 4)] \<and>
      length (fst (episode_rollout video_eval_env lib 0 r)) = 5 \<and>
      (state_reward video_eval_env (env_reset video_eval_env (random_PRNGKey lib 0)) = 0 \<longrightarrow>
         episode_rewards (logger (the_state (evaluate eval_env video_eval_env lib r))) =
           episode_rewards (logger r) @ [(0, 4)]) \<and>
      (env_dt eval_env \<noteq> 0 \<and>
       env_render eval_env (fst (episode_rollout video_eval_env lib 0 r))
         (snd (episode_rollout video_eval_env lib 0 r)) \<noteq> [] \<longrightarrow>
         is_done (evaluate eval_env video_eval_env lib r) \<and>
         cwd_files (the_state (evaluate eval_env video_eval_env lib r)) =
           (cwd_files r)(''output_0.mp4'' \<mapsto> Video_mp4 (1 / env_dt eval_env)
              (env_render eval_env (fst (episode_rollout video_eval_env lib 0 r))
                 (snd (episode_rollout video_eval_env lib 0 r))))))"
proof -
  have first: "hd (fst (episode_rollout video_eval_env lib episode r)) =
     env_reset video_eval_env (random_PRNGKey lib episode)"
    by (simp add: episode_rollout_def run_episode_hd)
  have stub: "(\<forall>s c. state_reward video_eval_env (env_step video_eval_env s c) = 1) \<and>
    env_config_episode_length r = 4 \<and> num_resets_per_eval (training_config r) = 1 \<and>
    map_of (rl_config (training_state r)) ''network_factory'' = Some nf \<longrightarrow>
      episode_rewards (logger (the_state (evaluate eval_env video_eval_env lib r))) =
        episode_rewards (logger r) @
          [(0, state_reward video_eval_env (env_reset video_eval_env (random_PRNGKey lib 0)) + 4)] \<and>
      length (fst (episode_rollout video_eval_env lib 0 r)) = 5 \<and>
      (state_reward video_eval_env (env_reset video_eval_env (random_PRNGKey lib 0)) = 0 \<longrightarrow>
         episode_rewards (logger (the_state (evaluate eval_env video_eval_env lib r))) =
           episode_rewards (logger r) @ [(0, 4)]) \<and>
      (env_dt eval_env \<noteq> 0 \<and>
       env_render eval_env (fst (episode_rollout video_eval_env lib 0 r))
         (snd (episode_rollout video_eval_env lib 0 r)) \<noteq> [] \<longrightarrow>
         is_done (evaluate eval_env video_eval_env lib r) \<and>
         cwd_files (the_state (evaluate eval_env video_eval_env lib r)) =
           (cwd_files r)(''output_0.mp4'' \<mapsto> Video_mp4 (1 / env_dt eval_env)
              (env_render eval_env (fst (episode_rollout video_eval_env lib 0 r))
                 (snd (episode_rollout video_eval_env lib 0 r)))))"
  proof (intro impI, elim conjE)
    assume ones: "\<forall>s c. state_reward video_eval_env (env_step video_eval_env s c) = 1"
      and len: "env_config_episode_length r = 4"
      and one: "num_resets_per_eval (training_config r) = 1"
      and nf: "map_of (rl_config (training_state r)) ''network_factory'' = Some nf"
    note facts = evaluate_stub_like[OF ones len one nf]
    from facts(1)[of eval_env lib] facts(2)[of lib] facts(3)[of eval_env lib]
    show "episode_rewards (logger (the_state (evaluate eval_env video_eval_env lib r))) =
        episode_rewards (logger r) @
          [(0, state_reward video_eval_env (env_reset video_eval_env (random_PRNGKey lib 0)) + 4)] \<and>
      length (fst (episode_rollout video_eval_env lib 0 r)) = 5 \<and>
      (state_reward video_eval_env (env_reset video_eval_env (random_PRNGKey lib 0)) = 0 \<longrightarrow>
         episode_rewards (logger (the_state (evaluate eval_env video_eval_env lib r))) =
           episode_rewards (logger r) @ [(0, 4)]) \<and>
      (env_dt eval_env \<noteq> 0 \<and>
       env_render eval_env (fst (episode_rollout video_eval_env lib 0 r))
         (snd (episode_rollout video_eval_env lib 0 r)) \<noteq> [] \<longrightarrow>
         is_done (evaluate eval_env video_eval_env lib r) \<and>
         cwd_files (the_state (evaluate eval_env video_eval_env lib r)) =
           (cwd_files r)(''output_0.mp4'' \<mapsto> Video_mp4 (1 / env_dt eval_env)
              (env_render eval_env (fst (episode_rollout video_eval_env lib 0 r))
                 (snd (episode_rollout video_eval_env lib 0 r)))))"
      by simp
  qed
  from evaluate_episode_rewards[of eval_env video_eval_env lib episode r] first stub
  show ?thesis by blast
qed

text \<open>Witness for C7: the stub environment with the runner configured for episodes of
  length 4: the total reported is 1 + 4, and the video of 5 frames is the only file.\<close>

theorem evaluate_reward_witness:
  "(\<forall>s c. state_reward stub_env (env_step stub_env s c) = 1) \<and>
   env_config_episode_length stub_runner = 4 \<and>
   num_resets_per_eval (training_config stub_runner) = 1 \<and>
   map_of (rl_config (training_state stub_runner)) ''network_factory'' =
     Some (ConfigDict_to_dict default_network_factory) \<and>
   env_dt stub_env \<noteq> 0 \<and>
   env_render stub_env (fst (episode_rollout stub_env stub_lib 0 stub_runner))
     (snd (episode_rollout stub_env stub_lib 0 stub_runner)) \<noteq> [] \<and>
   episode_rewards (logger (the_state (evaluate stub_env stub_env stub_lib stub_runner))) =
     [(0, 1 + 4)] \<and>
   is_done (evaluate stub_env stub_env stub_lib stub_runner) \<and>
   cwd_files (the_state (evaluate stub_env stub_env stub_lib stub_runner)) =
     [''output_0.mp4'' \<mapsto> Video_mp4 50 [0, 1, 2, 3, 4]]"
proof -
  have frames: "env_render stub_env (fst (episode_rollout stub_env stub_lib 0 stub_runner))
     (snd (episode_rollout stub_env stub_lib 0 stub_runner)) = [0, 1, 2, 3, 4]"
    by (simp add: stub_rollout) (simp add: stub_env_def)
  have dt: "1 / env_dt stub_env = 50" by (simp add: stub_env_def)
  from evaluate_reward[of stub_env stub_env stub_lib 0 stub_runner
      "ConfigDict_to_dict default_network_factory"] stub_facts stub_network_factory frames dt
  show ?thesis by simp
qed

end
